theory Spec2Isabelle
  imports Main "HOL-Library.Char_ord" "HOL-Library.List_Lexorder"
begin

section \<open>Python strings\<close>

text \<open>
  Python \<^verbatim>\<open>str\<close> values are modelled as \<^typ>\<open>string\<close>; \<^verbatim>\<open><=\<close> on them is the
  lexicographic order of the character codes, which is the order \<open>\<le>\<close> of
  \<^typ>\<open>char list\<close> here.
\<close>

text \<open>\<^verbatim>\<open>s.startswith(p)\<close>\<close>

fun startswith :: "string \<Rightarrow> string \<Rightarrow> bool" where
  "startswith s [] = True"
| "startswith [] (c # p) = False"
| "startswith (d # s) (c # p) = (d = c \<and> startswith s p)"

text \<open>\<^verbatim>\<open>k in s\<close>: \<open>k\<close> occurs in \<open>s\<close> as a contiguous substring.\<close>

fun py_in :: "string \<Rightarrow> string \<Rightarrow> bool" where
  "py_in k [] = (k = [])"
| "py_in k (c # s) = (startswith (c # s) k \<or> py_in k s)"

text \<open>
  \<^verbatim>\<open>s.replace(old, new)\<close> replaces the non-overlapping occurrences of \<open>old\<close> from the
  left. The counter says how many characters of an occurrence just replaced are still
  to be skipped. With an empty \<open>old\<close> Python puts \<open>new\<close> before every character and
  at the end.
\<close>

fun replace_from :: "string \<Rightarrow> string \<Rightarrow> nat \<Rightarrow> string \<Rightarrow> string" where
  "replace_from old new n [] = []"
| "replace_from old new (Suc n) (c # s) = replace_from old new n s"
| "replace_from old new 0 (c # s) =
     (if startswith (c # s) old then new @ replace_from old new (length old - 1) s
      else c # replace_from old new 0 s)"

definition py_replace :: "string \<Rightarrow> string \<Rightarrow> string \<Rightarrow> string" where
  "py_replace old new s =
     (if old = [] then new @ concat (map (\<lambda>c. c # new) s) else replace_from old new 0 s)"

text \<open>
  \<^verbatim>\<open>s.count(sub)\<close> counts the non-overlapping occurrences of \<open>sub\<close> from the left; for
  an empty \<open>sub\<close> it is \<open>len(s) + 1\<close>.
\<close>

fun count_from :: "string \<Rightarrow> nat \<Rightarrow> string \<Rightarrow> nat" where
  "count_from sub n [] = 0"
| "count_from sub (Suc n) (c # s) = count_from sub n s"
| "count_from sub 0 (c # s) =
     (if startswith (c # s) sub then Suc (count_from sub (length sub - 1) s)
      else count_from sub 0 s)"

definition py_count :: "string \<Rightarrow> string \<Rightarrow> nat" where
  "py_count sub s = (if sub = [] then Suc (length s) else count_from sub 0 s)"

text \<open>\<^verbatim>\<open>"\n".join(ts)\<close>\<close>

fun join_nl :: "string list \<Rightarrow> string" where
  "join_nl [] = []"
| "join_nl [t] = t"
| "join_nl (t # u # ts) = t @ CHR 0x0A # join_nl (u # ts)"

text \<open>The exceptions that the code and the libraries raise here.\<close>

datatype py_exn = IndexError | AttributeError | ValueError | OverflowError | InvalidXmlError

section \<open>The document model\<close>

text \<open>
  The document is the tree that python-docx keeps: a body whose children are paragraphs,
  tables and the section properties; a paragraph with a style, an alignment and runs; a
  table with its property element, its column grid and its rows of cells. The text of a
  run is what \<^verbatim>\<open>run.text\<close> reads: the text elements, a tab for each \<^verbatim>\<open>w:tab\<close> and a newline
  for each \<^verbatim>\<open>w:br\<close>. Contents python-docx reaches but the repository never touches
  (hyperlinks, tables nested in cells, rows that start after the first grid column) are
  outside the model. A character is a \<^typ>\<open>char\<close>, so the code points are those up to 255.
\<close>

text \<open>
  The element \<^verbatim>\<open>w:sz\<close> of the properties of a run. python-docx makes the element and
  then gives it its value \<^verbatim>\<open>w:val\<close>, a number of half-points; an element whose value was
  refused stays without one.
\<close>

datatype sz = NoVal | HalfPoints nat

datatype alignment = LEFT | CENTER | RIGHT | JUSTIFY

record style =
  style_id :: string
  style_name :: string

record run =
  r_text :: string
  r_bold :: "bool option"
  r_italic :: "bool option"
  r_underline :: "bool option"
  r_sz :: "sz option"
  r_font_name :: "string option"
  r_east_asia :: "string option"
  r_color :: "(int \<times> int \<times> int) option"

record para =
  p_style :: style
  p_alignment :: "alignment option"
  p_runs :: "run list"

text \<open>
  A cell element \<^verbatim>\<open>w:tc\<close> covers \<open>tc_grid_span\<close> columns of the grid (\<^verbatim>\<open>w:gridSpan\<close>, 1
  when the cell is not merged over columns). In a cell merged over rows the first element
  has \<^verbatim>\<open>w:vMerge\<close> with the value \<^verbatim>\<open>restart\<close> and holds the content; the elements below it
  have the value \<^verbatim>\<open>continue\<close>.
\<close>

datatype vmerge = Restart | Continue

record tc =
  tc_grid_span :: nat
  tc_vMerge :: "vmerge option"
  tc_paras :: "para list"

text \<open>
  The children of a \<^verbatim>\<open>w:tbl\<close> element: the property element \<^verbatim>\<open>w:tblPr\<close> with its
  children, the grid \<^verbatim>\<open>w:tblGrid\<close> with its \<^verbatim>\<open>w:gridCol\<close> children, the rows, and any
  other element appended to the table directly. A child element that the code only
  copies is an opaque value.
\<close>

type_synonym xml = string

record table =
  tblPr :: "xml list option"
  tblGrid :: "xml list option"
  tbl_other :: "xml list"
  tbl_trs :: "tc list list"

datatype block = P para | T table | SectPr

record document =
  default_style :: style
  body :: "block list"

text \<open>\<^verbatim>\<open>processor.current_document\<close>, the one piece of state every tool works on.\<close>

type_synonym processor = "document option"

subsection \<open>What python-docx reads\<close>

text \<open>\<^verbatim>\<open>doc.paragraphs\<close> and \<^verbatim>\<open>doc.tables\<close>: the children of the body of each kind, in order.\<close>

fun block_paragraphs :: "block list \<Rightarrow> para list" where
  "block_paragraphs [] = []"
| "block_paragraphs (P p # bs) = p # block_paragraphs bs"
| "block_paragraphs (b # bs) = block_paragraphs bs"

fun block_tables :: "block list \<Rightarrow> table list" where
  "block_tables [] = []"
| "block_tables (T t # bs) = t # block_tables bs"
| "block_tables (b # bs) = block_tables bs"

definition paragraphs :: "document \<Rightarrow> para list" where
  "paragraphs doc = block_paragraphs (body doc)"

definition tables :: "document \<Rightarrow> table list" where
  "tables doc = block_tables (body doc)"

text \<open>\<^verbatim>\<open>paragraph.text\<close> is the text of the runs, one after the other.\<close>

definition para_text :: "para \<Rightarrow> string" where
  "para_text p = concat (map r_text (p_runs p))"

text \<open>\<^verbatim>\<open>cell.text\<close> joins the texts of the cell's paragraphs with newlines.\<close>

definition cell_text :: "tc \<Rightarrow> string" where
  "cell_text c = join_nl (map para_text (tc_paras c))"

text \<open>
  \<^verbatim>\<open>float(n)\<close> for a natural number \<open>n\<close>: the nearest number with 53 significant bits,
  the even one of two that are equally near. \<open>round_half_even a b\<close> is the quotient of
  \<open>a\<close> by \<open>b\<close> rounded in this way.
\<close>

fun bit_length :: "nat \<Rightarrow> nat" where
  "bit_length n = (if n = 0 then 0 else Suc (bit_length (n div 2)))"

declare bit_length.simps [simp del]

definition round_half_even :: "nat \<Rightarrow> nat \<Rightarrow> nat" where
  "round_half_even a b =
     (let q = a div b; r = a mod b
      in if b < 2 * r \<or> (2 * r = b \<and> odd q) then q + 1 else q)"

definition py_float :: "nat \<Rightarrow> nat" where
  "py_float n =
     (let k = bit_length n
      in if k \<le> 53 then n else round_half_even n (2 ^ (k - 53)) * 2 ^ (k - 53))"

text \<open>
  \<^verbatim>\<open>run.font.size\<close> reads the half-points \<open>h\<close> of \<^verbatim>\<open>w:sz\<close> as the length
  \<^verbatim>\<open>Pt(h / 2.0)\<close>, that is \<^verbatim>\<open>int(h / 2.0 * 12700)\<close> English Metric Units, computed in
  floating point. It is \<^verbatim>\<open>None\<close> for a run without the element, and raises for an element
  without a value and for a number beyond the floating-point range.
\<close>

definition get_font_size :: "run \<Rightarrow> py_exn + int option" where
  "get_font_size r =
     (case r_sz r of
        None \<Rightarrow> Inr None
      | Some NoVal \<Rightarrow> Inl InvalidXmlError
      | Some (HalfPoints h) \<Rightarrow>
          let emu = py_float (py_float h * 6350)
          in if 2 ^ 1024 \<le> emu then Inl OverflowError else Inr (Some (int emu)))"

text \<open>
  \<^verbatim>\<open>row.cells\<close> has one entry for each grid column the row covers. A cell element that
  spans \<open>n\<close> columns is in it \<open>n\<close> times. For an element that continues a vertical merge the
  entries are those of the element above it, the one that starts at the same grid column
  in the row before, and so on up to the element that holds the content. The entries are
  given here as the positions of the elements: the row, and the place in the row's list of
  \<^verbatim>\<open>w:tc\<close> elements. \<^verbatim>\<open>ValueError\<close> is raised when there is no row above or no element
  starts at that grid column.
\<close>

definition grid_offset :: "tc list \<Rightarrow> nat \<Rightarrow> nat" where
  "grid_offset row k = sum_list (map tc_grid_span (take k row))"

fun tc_at_grid_offset :: "tc list \<Rightarrow> nat \<Rightarrow> int \<Rightarrow> py_exn + nat" where
  "tc_at_grid_offset [] k remaining_offset = Inl ValueError"
| "tc_at_grid_offset (c # cs) k remaining_offset =
     (if remaining_offset < 0 then Inl ValueError
      else if remaining_offset = 0 then Inr k
      else tc_at_grid_offset cs (Suc k) (remaining_offset - int (tc_grid_span c)))"

fun tc_origin :: "tc list list \<Rightarrow> nat \<Rightarrow> nat \<Rightarrow> py_exn + (nat \<times> nat)" where
  "tc_origin trs 0 k =
     (if tc_vMerge (trs ! 0 ! k) = Some Continue then Inl ValueError else Inr (0, k))"
| "tc_origin trs (Suc r) k =
     (if tc_vMerge (trs ! Suc r ! k) = Some Continue then
        (case tc_at_grid_offset (trs ! r) 0 (int (grid_offset (trs ! Suc r) k)) of
           Inl e \<Rightarrow> Inl e
         | Inr k' \<Rightarrow> tc_origin trs r k')
      else Inr (Suc r, k))"

definition cell_at :: "tc list list \<Rightarrow> nat \<times> nat \<Rightarrow> tc" where
  "cell_at trs ref = trs ! fst ref ! snd ref"

fun iter_row_cells :: "tc list list \<Rightarrow> nat \<Rightarrow> nat list \<Rightarrow> py_exn + (nat \<times> nat) list" where
  "iter_row_cells trs r [] = Inr []"
| "iter_row_cells trs r (k # ks) =
     (case tc_origin trs r k of
        Inl e \<Rightarrow> Inl e
      | Inr ref \<Rightarrow>
          (case iter_row_cells trs r ks of
             Inl e \<Rightarrow> Inl e
           | Inr refs \<Rightarrow> Inr (replicate (tc_grid_span (cell_at trs ref)) ref @ refs)))"

definition row_cells :: "tc list list \<Rightarrow> nat \<Rightarrow> py_exn + (nat \<times> nat) list" where
  "row_cells trs r = iter_row_cells trs r [0 ..< length (trs ! r)]"

subsection \<open>What python-docx and lxml write\<close>

text \<open>
  lxml takes a string as a text or as the value of an attribute only when all of its
  characters are characters of XML: the tab, the newline, the carriage return and the
  characters from the space on. For any other string it raises \<^verbatim>\<open>ValueError\<close>.
\<close>

definition xml_char :: "char \<Rightarrow> bool" where
  "xml_char c = (let n = of_char c :: nat in n = 9 \<or> n = 10 \<or> n = 13 \<or> 32 \<le> n)"

text \<open>
  \<^verbatim>\<open>run.text = text\<close> goes through the characters. A tab ends the text element in hand and
  adds a \<^verbatim>\<open>w:tab\<close>; a newline or a carriage return ends it and adds a \<^verbatim>\<open>w:br\<close>, which reads
  back as a newline; any other character goes to the buffer. \<open>flush\<close> makes the text
  element of a buffer that is not empty. \<open>content\<close> is what the run reads back so far;
  with an exception comes the content written before it.
\<close>

definition flush :: "string \<Rightarrow> string \<Rightarrow> py_exn option \<times> string" where
  "flush content bfr =
     (if bfr = [] then (None, content)
      else if list_all xml_char bfr then (None, content @ bfr)
      else (Some ValueError, content))"

fun append_to_run :: "string \<Rightarrow> string \<Rightarrow> string \<Rightarrow> py_exn option \<times> string" where
  "append_to_run content bfr [] = flush content bfr"
| "append_to_run content bfr (c # cs) =
     (if c = CHR 0x09 then
        (case flush content bfr of
           (Some e, content') \<Rightarrow> (Some e, content')
         | (None, content') \<Rightarrow> append_to_run (content' @ [CHR 0x09]) [] cs)
      else if c = CHR 0x0D \<or> c = CHR 0x0A then
        (case flush content bfr of
           (Some e, content') \<Rightarrow> (Some e, content')
         | (None, content') \<Rightarrow> append_to_run (content' @ [CHR 0x0A]) [] cs)
      else append_to_run content (bfr @ [c]) cs)"

text \<open>What a run reads back of a text it took: each carriage return is a newline.\<close>

definition read_back :: "string \<Rightarrow> string" where
  "read_back t = map (\<lambda>c. if c = CHR 0x0D then CHR 0x0A else c) t"

definition plain_run :: "string \<Rightarrow> run" where
  "plain_run t = \<lparr> r_text = t, r_bold = None, r_italic = None, r_underline = None,
     r_sz = None, r_font_name = None, r_east_asia = None, r_color = None \<rparr>"

text \<open>
  \<^verbatim>\<open>paragraph.add_run(text)\<close> adds a run without formatting and writes the text to it;
  the run that comes with an exception is the run as the exception left it.
\<close>

definition add_run :: "string \<Rightarrow> py_exn option \<times> run" where
  "add_run text = (case append_to_run [] [] text of (exn, content) \<Rightarrow> (exn, plain_run content))"

text \<open>
  \<^verbatim>\<open>paragraph.text = t\<close> removes the content of the paragraph and adds one run with \<open>t\<close>;
  style and alignment stay.
\<close>

definition set_para_text :: "string \<Rightarrow> para \<Rightarrow> py_exn option \<times> para" where
  "set_para_text t p = (case add_run t of (exn, r) \<Rightarrow> (exn, p\<lparr> p_runs := [r] \<rparr>))"

text \<open>
  \<^verbatim>\<open>run.font.size = emu\<close> for a length in English Metric Units. The element \<^verbatim>\<open>w:sz\<close> is
  made when the run has none; then the length must be an unsigned 64-bit number, and the
  value stored is \<^verbatim>\<open>int(emu / 12700.0 * 2)\<close> half-points, computed in floating point.
  \<open>half_points\<close> is that value for such a length.
\<close>

definition half_points :: "nat \<Rightarrow> nat" where
  "half_points emu =
     (let x = py_float emu;
          k = bit_length (x * 2 ^ 64 div 12700);
          m = round_half_even (x * 2 ^ 64 * 2 ^ (53 - k)) (12700 * 2 ^ (k - 53))
      in (2 * m) div 2 ^ (117 - k))"

definition set_font_size :: "int \<Rightarrow> run \<Rightarrow> py_exn option \<times> run" where
  "set_font_size emu r =
     (if 0 \<le> emu \<and> emu \<le> 18446744073709551615
      then (None, r\<lparr> r_sz := Some (HalfPoints (half_points (nat emu))) \<rparr>)
      else (Some ValueError,
            r\<lparr> r_sz := (case r_sz r of None \<Rightarrow> Some NoVal | Some s \<Rightarrow> Some s) \<rparr>))"

text \<open>
  \<^verbatim>\<open>run.font.name = name\<close> writes the name to the attributes of \<^verbatim>\<open>w:rFonts\<close>; a name
  that lxml refuses leaves the run without a font name.
\<close>

definition set_font_name :: "string \<Rightarrow> run \<Rightarrow> py_exn option \<times> run" where
  "set_font_name name r =
     (if list_all xml_char name then (None, r\<lparr> r_font_name := Some name \<rparr>)
      else (Some ValueError, r))"

text \<open>
  The \<open>i\<close>-th paragraph of the body, changed in place. The tools reach a paragraph through
  \<^verbatim>\<open>doc.paragraphs[i]\<close> and change the object they get.
\<close>

fun update_paragraph :: "nat \<Rightarrow> (para \<Rightarrow> para) \<Rightarrow> block list \<Rightarrow> block list" where
  "update_paragraph i f [] = []"
| "update_paragraph i f (P p # bs) =
     (case i of 0 \<Rightarrow> P (f p) # bs | Suc j \<Rightarrow> P p # update_paragraph j f bs)"
| "update_paragraph i f (b # bs) = b # update_paragraph i f bs"

text \<open>The cell element at a position of the rows, replaced.\<close>

definition cell_update :: "nat \<times> nat \<Rightarrow> tc \<Rightarrow> tc list list \<Rightarrow> tc list list" where
  "cell_update ref c trs = trs[fst ref := (trs ! fst ref)[snd ref := c]]"

section \<open>What a tool returns\<close>

text \<open>
  Every tool returns a message. The messages of the checks that refuse a call and of
  the \<^verbatim>\<open>except\<close> clauses are failures; the others are successes. A message is kept as the
  data it is formatted from.
\<close>

datatype location = InParagraph nat | InCell nat nat nat

datatype search_result = SearchResult location string

datatype replace_result =
  ReplaceResult (rr_location: location) (rr_original: string) (rr_replaced: string) (rr_count: nat)

datatype failure =
    NoDocumentOpen
  | NoTables
  | ParagraphIndexOutOfRange int nat
  | StartPositionOutOfRange int nat
  | EndPositionInvalid int int nat
  | TableIndexOutOfRange int nat
  | RowIndexOutOfRange int nat
  | StartRowOutOfRange int nat
  | StartColumnOutOfRange int nat
  | EndRowInvalid int int nat
  | EndColumnInvalid int int nat
  | RowIndexInvalid int nat
  | TitleNotFound string
  | KeywordNotFound string
  | Failed py_exn

datatype success =
    ParagraphAdded
  | DeletedText int int int
  | NoMatch string
  | Found "search_result list"
  | Report bool string string "replace_result list"
  | Replaced string string nat
  | ReplacedSection string
  | ReplacedAround string
  | MergedCells int int int int int
  | SplitTable int int

type_synonym reply = "failure + success"

section \<open>content.py\<close>

subsection \<open>\<^verbatim>\<open>delete_text\<close>\<close>

definition delete_text :: "processor \<Rightarrow> int \<Rightarrow> int \<Rightarrow> int \<Rightarrow> reply \<times> processor" where
  "delete_text st paragraph_index start_pos end_pos =
     (case st of
        None \<Rightarrow> (Inl NoDocumentOpen, st)
      | Some doc \<Rightarrow>
          if paragraph_index < 0 \<or> paragraph_index \<ge> int (length (paragraphs doc))
          then (Inl (ParagraphIndexOutOfRange paragraph_index (length (paragraphs doc))), st)
          else
            let paragraph = paragraphs doc ! nat paragraph_index;
                text = para_text paragraph in
            if start_pos < 0 \<or> start_pos \<ge> int (length text)
            then (Inl (StartPositionOutOfRange start_pos (length text)), st)
            else if end_pos \<le> start_pos \<or> end_pos > int (length text)
            then (Inl (EndPositionInvalid end_pos start_pos (length text)), st)
            else
              let new_text = take (nat start_pos) text @ drop (nat end_pos) text in
              (case set_para_text new_text paragraph of
                 (exn, paragraph') \<Rightarrow>
                   ((case exn of
                       Some e \<Rightarrow> Inl (Failed e)
                     | None \<Rightarrow> Inr (DeletedText start_pos end_pos paragraph_index)),
                    Some (doc\<lparr> body :=
                      update_paragraph (nat paragraph_index) (\<lambda>p. paragraph') (body doc) \<rparr>))))"

subsection \<open>\<^verbatim>\<open>search_text\<close>\<close>

text \<open>The loop over \<^verbatim>\<open>enumerate(doc.paragraphs)\<close>.\<close>

fun search_paragraphs :: "string \<Rightarrow> nat \<Rightarrow> para list \<Rightarrow> search_result list" where
  "search_paragraphs keyword i [] = []"
| "search_paragraphs keyword i (p # ps) =
     (if py_in keyword (para_text p)
      then SearchResult (InParagraph i) (para_text p) # search_paragraphs keyword (Suc i) ps
      else search_paragraphs keyword (Suc i) ps)"

text \<open>
  The loop over \<^verbatim>\<open>enumerate(row.cells)\<close>; \<open>trs\<close> are the rows of the table and \<open>refs\<close> the
  entries of \<^verbatim>\<open>row.cells\<close>.
\<close>

fun search_cells ::
  "string \<Rightarrow> nat \<Rightarrow> nat \<Rightarrow> tc list list \<Rightarrow> nat \<Rightarrow> (nat \<times> nat) list \<Rightarrow> search_result list" where
  "search_cells keyword t_idx r_idx trs c_idx [] = []"
| "search_cells keyword t_idx r_idx trs c_idx (ref # refs) =
     (if py_in keyword (cell_text (cell_at trs ref))
      then SearchResult (InCell t_idx r_idx c_idx) (cell_text (cell_at trs ref))
             # search_cells keyword t_idx r_idx trs (Suc c_idx) refs
      else search_cells keyword t_idx r_idx trs (Suc c_idx) refs)"

text \<open>The loop over \<^verbatim>\<open>enumerate(table.rows)\<close>; \<open>rs\<close> are the indices of the rows to come.\<close>

fun search_rows ::
  "string \<Rightarrow> nat \<Rightarrow> tc list list \<Rightarrow> nat list \<Rightarrow> py_exn + search_result list" where
  "search_rows keyword t_idx trs [] = Inr []"
| "search_rows keyword t_idx trs (r_idx # rs) =
     (case row_cells trs r_idx of
        Inl e \<Rightarrow> Inl e
      | Inr refs \<Rightarrow>
          (case search_rows keyword t_idx trs rs of
             Inl e \<Rightarrow> Inl e
           | Inr results \<Rightarrow> Inr (search_cells keyword t_idx r_idx trs 0 refs @ results)))"

fun search_tables :: "string \<Rightarrow> nat \<Rightarrow> table list \<Rightarrow> py_exn + search_result list" where
  "search_tables keyword t_idx [] = Inr []"
| "search_tables keyword t_idx (t # ts) =
     (case search_rows keyword t_idx (tbl_trs t) [0 ..< length (tbl_trs t)] of
        Inl e \<Rightarrow> Inl e
      | Inr results \<Rightarrow>
          (case search_tables keyword (Suc t_idx) ts of
             Inl e \<Rightarrow> Inl e
           | Inr results' \<Rightarrow> Inr (results @ results')))"

definition search_text :: "processor \<Rightarrow> string \<Rightarrow> reply \<times> processor" where
  "search_text st keyword =
     (case st of
        None \<Rightarrow> (Inl NoDocumentOpen, st)
      | Some doc \<Rightarrow>
          (case search_tables keyword 0 (tables doc) of
             Inl e \<Rightarrow> (Inl (Failed e), st)
           | Inr in_tables \<Rightarrow>
               let results = search_paragraphs keyword 0 (paragraphs doc) @ in_tables in
               if results = [] then (Inr (NoMatch keyword), st)
               else (Inr (Found results), st)))"

subsection \<open>\<^verbatim>\<open>search_and_replace\<close>\<close>

text \<open>
  Every loop returns what it has changed so far together with its outcome: the results,
  or the exception that ended it.
\<close>

text \<open>
  The loop over \<^verbatim>\<open>enumerate(doc.paragraphs)\<close>, as one pass over the body: \<open>i\<close> counts
  the paragraphs met so far, and a paragraph that holds the keyword is rewritten in
  place unless the call is a preview.
\<close>

fun sar_paragraphs ::
  "string \<Rightarrow> string \<Rightarrow> bool \<Rightarrow> nat \<Rightarrow> block list
     \<Rightarrow> (py_exn + replace_result list) \<times> block list" where
  "sar_paragraphs keyword replace_with preview_only i [] = (Inr [], [])"
| "sar_paragraphs keyword replace_with preview_only i (P p # bs) =
     (if py_in keyword (para_text p) then
        (let original_text = para_text p;
             replaced_text = py_replace keyword replace_with original_text;
             result = ReplaceResult (InParagraph i) original_text replaced_text
                        (py_count keyword original_text)
         in case (if preview_only then (None, p) else set_para_text replaced_text p) of
              (Some e, p') \<Rightarrow> (Inl e, P p' # bs)
            | (None, p') \<Rightarrow>
                (case sar_paragraphs keyword replace_with preview_only (Suc i) bs of
                   (Inl e, bs') \<Rightarrow> (Inl e, P p' # bs')
                 | (Inr results, bs') \<Rightarrow> (Inr (result # results), P p' # bs')))
      else
        (case sar_paragraphs keyword replace_with preview_only (Suc i) bs of
           (outcome, bs') \<Rightarrow> (outcome, P p # bs')))"
| "sar_paragraphs keyword replace_with preview_only i (b # bs) =
     (case sar_paragraphs keyword replace_with preview_only i bs of
        (outcome, bs') \<Rightarrow> (outcome, b # bs'))"

text \<open>
  \<^verbatim>\<open>for para in cell.paragraphs: if keyword in para.text: para.text = para.text.replace(...)\<close>
\<close>

fun replace_in_paragraphs :: "string \<Rightarrow> string \<Rightarrow> para list \<Rightarrow> py_exn option \<times> para list" where
  "replace_in_paragraphs keyword replace_with [] = (None, [])"
| "replace_in_paragraphs keyword replace_with (para # paras) =
     (if py_in keyword (para_text para) then
        (case set_para_text (py_replace keyword replace_with (para_text para)) para of
           (Some e, para') \<Rightarrow> (Some e, para' # paras)
         | (None, para') \<Rightarrow>
             (case replace_in_paragraphs keyword replace_with paras of
                (exn, paras') \<Rightarrow> (exn, para' # paras')))
      else
        (case replace_in_paragraphs keyword replace_with paras of
           (exn, paras') \<Rightarrow> (exn, para # paras')))"

definition replace_in_cell :: "string \<Rightarrow> string \<Rightarrow> tc \<Rightarrow> py_exn option \<times> tc" where
  "replace_in_cell keyword replace_with c =
     (case replace_in_paragraphs keyword replace_with (tc_paras c) of
        (exn, paras') \<Rightarrow> (exn, c\<lparr> tc_paras := paras' \<rparr>))"

text \<open>
  The loop over \<^verbatim>\<open>enumerate(row.cells)\<close>. The rows of the table are the store: the cell
  of each entry of \<^verbatim>\<open>row.cells\<close> is read from the rows as the earlier iterations left
  them, and written back to them.
\<close>

fun sar_cells ::
  "string \<Rightarrow> string \<Rightarrow> bool \<Rightarrow> nat \<Rightarrow> nat \<Rightarrow> nat \<Rightarrow> (nat \<times> nat) list \<Rightarrow> tc list list
     \<Rightarrow> (py_exn + replace_result list) \<times> tc list list" where
  "sar_cells keyword replace_with preview_only t_idx r_idx c_idx [] trs = (Inr [], trs)"
| "sar_cells keyword replace_with preview_only t_idx r_idx c_idx (ref # refs) trs =
     (if py_in keyword (cell_text (cell_at trs ref)) then
        (let original_text = cell_text (cell_at trs ref);
             replaced_text = py_replace keyword replace_with original_text;
             result = ReplaceResult (InCell t_idx r_idx c_idx) original_text replaced_text
                        (py_count keyword original_text)
         in case (if preview_only then (None, cell_at trs ref)
                  else replace_in_cell keyword replace_with (cell_at trs ref)) of
              (Some e, c') \<Rightarrow> (Inl e, cell_update ref c' trs)
            | (None, c') \<Rightarrow>
                (case sar_cells keyword replace_with preview_only t_idx r_idx (Suc c_idx) refs
                        (if preview_only then trs else cell_update ref c' trs) of
                   (Inl e, trs') \<Rightarrow> (Inl e, trs')
                 | (Inr results, trs') \<Rightarrow> (Inr (result # results), trs')))
      else sar_cells keyword replace_with preview_only t_idx r_idx (Suc c_idx) refs trs)"

text \<open>The loop over \<^verbatim>\<open>enumerate(table.rows)\<close>; \<open>rs\<close> are the indices of the rows to come.\<close>

fun sar_rows ::
  "string \<Rightarrow> string \<Rightarrow> bool \<Rightarrow> nat \<Rightarrow> nat list \<Rightarrow> tc list list
     \<Rightarrow> (py_exn + replace_result list) \<times> tc list list" where
  "sar_rows keyword replace_with preview_only t_idx [] trs = (Inr [], trs)"
| "sar_rows keyword replace_with preview_only t_idx (r_idx # rs) trs =
     (case row_cells trs r_idx of
        Inl e \<Rightarrow> (Inl e, trs)
      | Inr refs \<Rightarrow>
          (case sar_cells keyword replace_with preview_only t_idx r_idx 0 refs trs of
             (Inl e, trs') \<Rightarrow> (Inl e, trs')
           | (Inr results, trs') \<Rightarrow>
               (case sar_rows keyword replace_with preview_only t_idx rs trs' of
                  (Inl e, trs'') \<Rightarrow> (Inl e, trs'')
                | (Inr results', trs'') \<Rightarrow> (Inr (results @ results'), trs''))))"

text \<open>The loop over \<^verbatim>\<open>enumerate(doc.tables)\<close>, as one pass over the body.\<close>

fun sar_tables ::
  "string \<Rightarrow> string \<Rightarrow> bool \<Rightarrow> nat \<Rightarrow> block list
     \<Rightarrow> (py_exn + replace_result list) \<times> block list" where
  "sar_tables keyword replace_with preview_only t_idx [] = (Inr [], [])"
| "sar_tables keyword replace_with preview_only t_idx (T t # bs) =
     (case sar_rows keyword replace_with preview_only t_idx [0 ..< length (tbl_trs t)] (tbl_trs t) of
        (Inl e, trs') \<Rightarrow> (Inl e, T (t\<lparr> tbl_trs := trs' \<rparr>) # bs)
      | (Inr results, trs') \<Rightarrow>
          (case sar_tables keyword replace_with preview_only (Suc t_idx) bs of
             (Inl e, bs') \<Rightarrow> (Inl e, T (t\<lparr> tbl_trs := trs' \<rparr>) # bs')
           | (Inr results', bs') \<Rightarrow> (Inr (results @ results'), T (t\<lparr> tbl_trs := trs' \<rparr>) # bs')))"
| "sar_tables keyword replace_with preview_only t_idx (b # bs) =
     (case sar_tables keyword replace_with preview_only t_idx bs of
        (outcome, bs') \<Rightarrow> (outcome, b # bs'))"

text \<open>
  The message lists, for every result, its location and its count, with excerpts of the
  original and the replaced text; the reply keeps the results themselves. An exception
  ends the call with the failure message, and the document keeps what was written before
  it.
\<close>

definition search_and_replace :: "processor \<Rightarrow> string \<Rightarrow> string \<Rightarrow> bool \<Rightarrow> reply \<times> processor" where
  "search_and_replace st keyword replace_with preview_only =
     (case st of
        None \<Rightarrow> (Inl NoDocumentOpen, st)
      | Some doc \<Rightarrow>
          (case sar_paragraphs keyword replace_with preview_only 0 (body doc) of
             (Inl e, body1) \<Rightarrow> (Inl (Failed e), Some (doc\<lparr> body := body1 \<rparr>))
           | (Inr results, body1) \<Rightarrow>
               (case sar_tables keyword replace_with preview_only 0 body1 of
                  (Inl e, body2) \<Rightarrow> (Inl (Failed e), Some (doc\<lparr> body := body2 \<rparr>))
                | (Inr results', body2) \<Rightarrow>
                    if results @ results' = []
                    then (Inr (NoMatch keyword), Some (doc\<lparr> body := body2 \<rparr>))
                    else (Inr (Report preview_only keyword replace_with (results @ results')),
                          Some (doc\<lparr> body := body2 \<rparr>)))))"

subsection \<open>\<^verbatim>\<open>find_and_replace\<close>\<close>

text \<open>
  The body of both loops: a paragraph that holds \<open>find_text\<close> is rewritten, and the
  occurrences of \<open>replace_text\<close> in the text it then reads are counted.
\<close>

definition far_paragraph :: "string \<Rightarrow> string \<Rightarrow> para \<Rightarrow> (py_exn + nat) \<times> para" where
  "far_paragraph find_text replace_text p =
     (if py_in find_text (para_text p) then
        (case set_para_text (py_replace find_text replace_text (para_text p)) p of
           (Some e, p') \<Rightarrow> (Inl e, p')
         | (None, p') \<Rightarrow> (Inr (py_count replace_text (para_text p')), p'))
      else (Inr 0, p))"

fun far_paragraphs :: "string \<Rightarrow> string \<Rightarrow> block list \<Rightarrow> (py_exn + nat) \<times> block list" where
  "far_paragraphs find_text replace_text [] = (Inr 0, [])"
| "far_paragraphs find_text replace_text (P p # bs) =
     (case far_paragraph find_text replace_text p of
        (Inl e, p') \<Rightarrow> (Inl e, P p' # bs)
      | (Inr n, p') \<Rightarrow>
          (case far_paragraphs find_text replace_text bs of
             (Inl e, bs') \<Rightarrow> (Inl e, P p' # bs')
           | (Inr m, bs') \<Rightarrow> (Inr (n + m), P p' # bs')))"
| "far_paragraphs find_text replace_text (b # bs) =
     (case far_paragraphs find_text replace_text bs of
        (outcome, bs') \<Rightarrow> (outcome, b # bs'))"

text \<open>\<^verbatim>\<open>for paragraph in cell.paragraphs\<close>\<close>

fun far_cell_paragraphs :: "string \<Rightarrow> string \<Rightarrow> para list \<Rightarrow> (py_exn + nat) \<times> para list" where
  "far_cell_paragraphs find_text replace_text [] = (Inr 0, [])"
| "far_cell_paragraphs find_text replace_text (p # ps) =
     (case far_paragraph find_text replace_text p of
        (Inl e, p') \<Rightarrow> (Inl e, p' # ps)
      | (Inr n, p') \<Rightarrow>
          (case far_cell_paragraphs find_text replace_text ps of
             (Inl e, ps') \<Rightarrow> (Inl e, p' # ps')
           | (Inr m, ps') \<Rightarrow> (Inr (n + m), p' # ps')))"

text \<open>\<^verbatim>\<open>for cell in row.cells\<close>, on the rows of the table as the store.\<close>

fun far_cells ::
  "string \<Rightarrow> string \<Rightarrow> (nat \<times> nat) list \<Rightarrow> tc list list \<Rightarrow> (py_exn + nat) \<times> tc list list" where
  "far_cells find_text replace_text [] trs = (Inr 0, trs)"
| "far_cells find_text replace_text (ref # refs) trs =
     (case far_cell_paragraphs find_text replace_text (tc_paras (cell_at trs ref)) of
        (Inl e, ps') \<Rightarrow> (Inl e, cell_update ref ((cell_at trs ref)\<lparr> tc_paras := ps' \<rparr>) trs)
      | (Inr n, ps') \<Rightarrow>
          (case far_cells find_text replace_text refs
                  (cell_update ref ((cell_at trs ref)\<lparr> tc_paras := ps' \<rparr>) trs) of
             (Inl e, trs') \<Rightarrow> (Inl e, trs')
           | (Inr m, trs') \<Rightarrow> (Inr (n + m), trs')))"

text \<open>\<^verbatim>\<open>for row in table.rows\<close>; \<open>rs\<close> are the indices of the rows to come.\<close>

fun far_rows ::
  "string \<Rightarrow> string \<Rightarrow> nat list \<Rightarrow> tc list list \<Rightarrow> (py_exn + nat) \<times> tc list list" where
  "far_rows find_text replace_text [] trs = (Inr 0, trs)"
| "far_rows find_text replace_text (r_idx # rs) trs =
     (case row_cells trs r_idx of
        Inl e \<Rightarrow> (Inl e, trs)
      | Inr refs \<Rightarrow>
          (case far_cells find_text replace_text refs trs of
             (Inl e, trs') \<Rightarrow> (Inl e, trs')
           | (Inr n, trs') \<Rightarrow>
               (case far_rows find_text replace_text rs trs' of
                  (Inl e, trs'') \<Rightarrow> (Inl e, trs'')
                | (Inr m, trs'') \<Rightarrow> (Inr (n + m), trs''))))"

fun far_tables :: "string \<Rightarrow> string \<Rightarrow> block list \<Rightarrow> (py_exn + nat) \<times> block list" where
  "far_tables find_text replace_text [] = (Inr 0, [])"
| "far_tables find_text replace_text (T t # bs) =
     (case far_rows find_text replace_text [0 ..< length (tbl_trs t)] (tbl_trs t) of
        (Inl e, trs') \<Rightarrow> (Inl e, T (t\<lparr> tbl_trs := trs' \<rparr>) # bs)
      | (Inr n, trs') \<Rightarrow>
          (case far_tables find_text replace_text bs of
             (Inl e, bs') \<Rightarrow> (Inl e, T (t\<lparr> tbl_trs := trs' \<rparr>) # bs')
           | (Inr m, bs') \<Rightarrow> (Inr (n + m), T (t\<lparr> tbl_trs := trs' \<rparr>) # bs')))"
| "far_tables find_text replace_text (b # bs) =
     (case far_tables find_text replace_text bs of
        (outcome, bs') \<Rightarrow> (outcome, b # bs'))"

definition find_and_replace :: "processor \<Rightarrow> string \<Rightarrow> string \<Rightarrow> reply \<times> processor" where
  "find_and_replace st find_text replace_text =
     (case st of
        None \<Rightarrow> (Inl NoDocumentOpen, st)
      | Some doc \<Rightarrow>
          (case far_paragraphs find_text replace_text (body doc) of
             (Inl e, body1) \<Rightarrow> (Inl (Failed e), Some (doc\<lparr> body := body1 \<rparr>))
           | (Inr n, body1) \<Rightarrow>
               (case far_tables find_text replace_text body1 of
                  (Inl e, body2) \<Rightarrow> (Inl (Failed e), Some (doc\<lparr> body := body2 \<rparr>))
                | (Inr m, body2) \<Rightarrow>
                    (Inr (Replaced find_text replace_text (n + m)),
                     Some (doc\<lparr> body := body2 \<rparr>)))))"

subsection \<open>\<^verbatim>\<open>add_paragraph\<close>\<close>

text \<open>
  \<^verbatim>\<open>int(s, 16)\<close>: surrounding whitespace is dropped, one sign and one \<^verbatim>\<open>0x\<close> prefix are
  accepted, and single underscores may separate the digits. Anything else raises
  \<^verbatim>\<open>ValueError\<close>. The whitespace dropped is that of ASCII (the tab, the newline, the
  vertical tab, the form feed, the carriage return and the space) and, of the other
  characters up to 255, the next-line character and the no-break space.
\<close>

definition hex_digit :: "char \<Rightarrow> nat option" where
  "hex_digit c =
     (let n = of_char c :: nat in
      if 48 \<le> n \<and> n \<le> 57 then Some (n - 48)
      else if 97 \<le> n \<and> n \<le> 102 then Some (n - 87)
      else if 65 \<le> n \<and> n \<le> 70 then Some (n - 55)
      else None)"

definition py_isspace :: "char \<Rightarrow> bool" where
  "py_isspace c =
     (let n = of_char c :: nat in
      (9 \<le> n \<and> n \<le> 13) \<or> n = 32 \<or> n = 133 \<or> n = 160)"

fun hex_digits :: "bool \<Rightarrow> nat \<Rightarrow> string \<Rightarrow> nat option" where
  "hex_digits after_digit acc [] = (if after_digit then Some acc else None)"
| "hex_digits after_digit acc (c # cs) =
     (if c = CHR ''_'' then (if after_digit \<and> cs \<noteq> [] then hex_digits False acc cs else None)
      else case hex_digit c of
             None \<Rightarrow> None
           | Some d \<Rightarrow> hex_digits True (16 * acc + d) cs)"

definition py_int16 :: "string \<Rightarrow> py_exn + int" where
  "py_int16 s =
     (let t = rev (dropWhile py_isspace (rev (dropWhile py_isspace s)));
          negative = (t \<noteq> [] \<and> hd t = CHR ''-'');
          u = (if t \<noteq> [] \<and> (hd t = CHR ''-'' \<or> hd t = CHR ''+'') then tl t else t);
          prefixed = (length u \<ge> 2 \<and> hd u = CHR ''0'' \<and> (u ! 1 = CHR ''x'' \<or> u ! 1 = CHR ''X''));
          v = (if prefixed then (if length u \<ge> 3 \<and> u ! 2 = CHR ''_'' then drop 3 u else drop 2 u)
               else u)
      in case hex_digits False 0 v of
           None \<Rightarrow> Inl ValueError
         | Some n \<Rightarrow> Inr (if negative then - int n else int n))"

text \<open>\<^verbatim>\<open>RGBColor(r, g, b)\<close> takes three integers in 0..255 and raises \<^verbatim>\<open>ValueError\<close> otherwise.\<close>

definition RGBColor :: "int \<Rightarrow> int \<Rightarrow> int \<Rightarrow> py_exn + (int \<times> int \<times> int)" where
  "RGBColor r g b =
     (if 0 \<le> r \<and> r \<le> 255 \<and> 0 \<le> g \<and> g \<le> 255 \<and> 0 \<le> b \<and> b \<le> 255
      then Inr (r, g, b) else Inl ValueError)"

text \<open>
  The colour branch of \<^verbatim>\<open>add_paragraph\<close>: the guard
  \<^verbatim>\<open>color and color.startswith('#') and len(color) == 7\<close>, then the three channels. The
  result \<open>Inr None\<close> is the guard not taken: the run keeps no colour and nothing is raised.
\<close>

definition parse_color :: "string option \<Rightarrow> py_exn + (int \<times> int \<times> int) option" where
  "parse_color color =
     (case color of
        None \<Rightarrow> Inr None
      | Some c \<Rightarrow>
          if c \<noteq> [] \<and> startswith c ''#'' \<and> length c = 7 then
            (case py_int16 (take 2 (drop 1 c)) of
               Inl e \<Rightarrow> Inl e
             | Inr r \<Rightarrow>
                 (case py_int16 (take 2 (drop 3 c)) of
                    Inl e \<Rightarrow> Inl e
                  | Inr g \<Rightarrow>
                      (case py_int16 (take 2 (drop 5 c)) of
                         Inl e \<Rightarrow> Inl e
                       | Inr b \<Rightarrow>
                           (case RGBColor r g b of
                              Inl e \<Rightarrow> Inl e
                            | Inr rgb \<Rightarrow> Inr (Some rgb)))))
          else Inr None)"

text \<open>\<^verbatim>\<open>Pt(n)\<close> for an integer \<open>n\<close> is the length of \<open>n\<close> points in English Metric Units.\<close>

definition Pt :: "int \<Rightarrow> int" where
  "Pt n = n * 12700"

text \<open>
  \<^verbatim>\<open>doc.add_paragraph(...)\<close> puts the new paragraph at the end of the body, before the
  section properties when the body has them. \<open>sectPr_index\<close> is the position it gets.
\<close>

definition sectPr_index :: "block list \<Rightarrow> nat" where
  "sectPr_index bs = length (takeWhile (\<lambda>b. b \<noteq> SectPr) bs)"

definition add_p :: "para \<Rightarrow> block list \<Rightarrow> block list" where
  "add_p p bs = take (sectPr_index bs) bs @ P p # drop (sectPr_index bs) bs"

definition set_alignment :: "string option \<Rightarrow> para \<Rightarrow> para" where
  "set_alignment alignment p =
     (case alignment of
        None \<Rightarrow> p
      | Some a \<Rightarrow>
          if a = [] then p
          else if a = ''left'' then p\<lparr> p_alignment := Some LEFT \<rparr>
          else if a = ''center'' then p\<lparr> p_alignment := Some CENTER \<rparr>
          else if a = ''right'' then p\<lparr> p_alignment := Some RIGHT \<rparr>
          else if a = ''justify'' then p\<lparr> p_alignment := Some JUSTIFY \<rparr>
          else p)"

text \<open>
  The two statements that set a font name: \<^verbatim>\<open>run.font.name = name\<close> and then the
  attribute \<^verbatim>\<open>w:eastAsia\<close> of \<^verbatim>\<open>w:rFonts\<close>.
\<close>

definition set_font_names :: "string \<Rightarrow> run \<Rightarrow> py_exn option \<times> run" where
  "set_font_names name r =
     (case set_font_name name r of
        (Some e, r') \<Rightarrow> (Some e, r')
      | (None, r') \<Rightarrow> (None, r'\<lparr> r_east_asia := Some name \<rparr>))"

text \<open>
  The statements under \<^verbatim>\<open>if paragraph.runs:\<close>, on the first run: the three flags, the
  size, the font name, the colour. The run that comes with an exception is the run as the
  exception left it.
\<close>

definition format_run ::
  "bool \<Rightarrow> bool \<Rightarrow> bool \<Rightarrow> int option \<Rightarrow> string option \<Rightarrow> string option \<Rightarrow> run
     \<Rightarrow> py_exn option \<times> run" where
  "format_run bold italic underline font_size font_name color run =
     (let run1 = run\<lparr> r_bold := Some bold, r_italic := Some italic,
                       r_underline := Some underline \<rparr>
      in case (case font_size of
                 None \<Rightarrow> (None, run1)
               | Some n \<Rightarrow> if n = 0 then (None, run1) else set_font_size (Pt n) run1) of
           (Some e, run2) \<Rightarrow> (Some e, run2)
         | (None, run2) \<Rightarrow>
             (case (case font_name of
                      None \<Rightarrow> (None, run2)
                    | Some f \<Rightarrow> if f = [] then (None, run2) else set_font_names f run2) of
                (Some e, run3) \<Rightarrow> (Some e, run3)
              | (None, run3) \<Rightarrow>
                  (case parse_color color of
                     Inl e \<Rightarrow> (Some e, run3)
                   | Inr None \<Rightarrow> (None, run3)
                   | Inr (Some rgb) \<Rightarrow> (None, run3\<lparr> r_color := Some rgb \<rparr>))))"

text \<open>
  The paragraph is in the document from the first statement on, so an exception leaves it
  there, written and formatted as far as the code came. It has a run when the text is not
  empty.
\<close>

definition add_paragraph ::
  "processor \<Rightarrow> string \<Rightarrow> bool \<Rightarrow> bool \<Rightarrow> bool \<Rightarrow> int option \<Rightarrow> string option \<Rightarrow> string option
     \<Rightarrow> string option \<Rightarrow> reply \<times> processor" where
  "add_paragraph st text bold italic underline font_size font_name color alignment =
     (case st of
        None \<Rightarrow> (Inl NoDocumentOpen, st)
      | Some doc \<Rightarrow>
          (let paragraph = \<lparr> p_style = default_style doc, p_alignment = None, p_runs = [] \<rparr>
           in if text = [] then
                (Inr ParagraphAdded,
                 Some (doc\<lparr> body := add_p (set_alignment alignment paragraph) (body doc) \<rparr>))
              else
                (case add_run text of
                   (Some e, run) \<Rightarrow>
                     (Inl (Failed e),
                      Some (doc\<lparr> body := add_p (paragraph\<lparr> p_runs := [run] \<rparr>) (body doc) \<rparr>))
                 | (None, run) \<Rightarrow>
                     (case format_run bold italic underline font_size font_name color run of
                        (Some e, run') \<Rightarrow>
                          (Inl (Failed e),
                           Some (doc\<lparr> body :=
                             add_p (paragraph\<lparr> p_runs := [run'] \<rparr>) (body doc) \<rparr>))
                      | (None, run') \<Rightarrow>
                          (Inr ParagraphAdded,
                           Some (doc\<lparr> body :=
                             add_p (set_alignment alignment (paragraph\<lparr> p_runs := [run'] \<rparr>))
                               (body doc) \<rparr>))))))"

subsection \<open>\<^verbatim>\<open>replace_section\<close> and \<^verbatim>\<open>edit_section_by_keyword\<close>\<close>

text \<open>
  \<^verbatim>\<open>xs[i]\<close> for a Python index, which counts from the end when negative: the position it
  denotes, or \<^verbatim>\<open>IndexError\<close>.
\<close>

definition py_index :: "'a list \<Rightarrow> int \<Rightarrow> py_exn + nat" where
  "py_index xs i =
     (let n = int (length xs); j = (if i < 0 then n + i else i)
      in if 0 \<le> j \<and> j < n then Inr (nat j) else Inl IndexError)"

text \<open>The search for the title: the first paragraph whose text contains it, or -1.\<close>

fun find_title :: "string \<Rightarrow> nat \<Rightarrow> para list \<Rightarrow> int" where
  "find_title section_title i [] = -1"
| "find_title section_title i (p # ps) =
     (if py_in section_title (para_text p) then int i else find_title section_title (Suc i) ps)"

text \<open>
  The test that ends a section: a heading whose style name is at most the title's, or
  whose style is the title's style.
\<close>

definition ends_section :: "style \<Rightarrow> para \<Rightarrow> bool" where
  "ends_section title_style p =
     (startswith (style_name (p_style p)) ''Heading''
      \<and> (style_name (p_style p) \<le> style_name title_style \<or> p_style p = title_style))"

text \<open>
  The loop \<^verbatim>\<open>for i in range(title_index + 1, len(doc.paragraphs))\<close>: \<open>n\<close> is the initial
  \<^verbatim>\<open>end_index\<close>, the number of paragraphs, and \<open>ps\<close> are the paragraphs from \<open>i\<close> on.
\<close>

fun scan_end :: "style \<Rightarrow> nat \<Rightarrow> nat \<Rightarrow> para list \<Rightarrow> nat" where
  "scan_end title_style n i [] = n"
| "scan_end title_style n i (p # ps) =
     (if ends_section title_style p then i else scan_end title_style n (Suc i) ps)"

definition section_end :: "para list \<Rightarrow> nat \<Rightarrow> nat" where
  "section_end ps title_index =
     scan_end (p_style (ps ! title_index)) (length ps) (Suc title_index) (drop (Suc title_index) ps)"

text \<open>The format that is kept of a run and of a paragraph.\<close>

record run_info =
  ri_bold :: "bool option"
  ri_italic :: "bool option"
  ri_underline :: "bool option"
  ri_font_size :: "int option"
  ri_font_name :: "string option"
  ri_color :: "(int \<times> int \<times> int) option"

record style_info =
  si_style :: "style option"
  si_alignment :: "alignment option"
  si_runs :: "run_info list"

text \<open>Reading the size of a run can raise, and so can the loops around it.\<close>

definition capture_run :: "run \<Rightarrow> py_exn + run_info" where
  "capture_run r =
     (case get_font_size r of
        Inl e \<Rightarrow> Inl e
      | Inr emu \<Rightarrow>
          Inr \<lparr> ri_bold = r_bold r, ri_italic = r_italic r, ri_underline = r_underline r,
                ri_font_size = emu, ri_font_name = r_font_name r, ri_color = r_color r \<rparr>)"

fun capture_runs :: "run list \<Rightarrow> py_exn + run_info list" where
  "capture_runs [] = Inr []"
| "capture_runs (r # rs) =
     (case capture_run r of
        Inl e \<Rightarrow> Inl e
      | Inr run_info \<Rightarrow>
          (case capture_runs rs of
             Inl e \<Rightarrow> Inl e
           | Inr run_infos \<Rightarrow> Inr (run_info # run_infos)))"

definition capture :: "para \<Rightarrow> py_exn + style_info" where
  "capture p =
     (case capture_runs (p_runs p) of
        Inl e \<Rightarrow> Inl e
      | Inr run_infos \<Rightarrow>
          Inr \<lparr> si_style = Some (p_style p), si_alignment = p_alignment p,
                si_runs = run_infos \<rparr>)"

definition default_info :: style_info where
  "default_info = \<lparr> si_style = None, si_alignment = None, si_runs = [] \<rparr>"

definition last_or_default :: "style_info list \<Rightarrow> style_info" where
  "last_or_default original_styles =
     (if original_styles \<noteq> [] then last original_styles else default_info)"

text \<open>The loop that saves the formats of the paragraphs about to go.\<close>

fun capture_styles ::
  "para list \<Rightarrow> int list \<Rightarrow> style_info list \<Rightarrow> py_exn + style_info list" where
  "capture_styles ps [] original_styles = Inr original_styles"
| "capture_styles ps (i # is) original_styles =
     (if i < int (length ps) then
        (case capture (ps ! nat i) of
           Inl e \<Rightarrow> Inl e
         | Inr style_info \<Rightarrow> capture_styles ps is (original_styles @ [style_info]))
      else capture_styles ps is (original_styles @ [last_or_default original_styles]))"

text \<open>\<^verbatim>\<open>while len(original_styles) < len(new_content)\<close>\<close>

function pad_styles :: "nat \<Rightarrow> style_info list \<Rightarrow> style_info list" where
  "pad_styles n original_styles =
     (if length original_styles < n
      then pad_styles n (original_styles @ [last_or_default original_styles])
      else original_styles)"
  by pat_completeness auto
termination
  by (relation "measure (\<lambda>(n, original_styles). n - length original_styles)") auto

declare pad_styles.simps [simp del]

text \<open>Taking the \<open>i\<close>-th paragraph out of the body.\<close>

fun remove_paragraph :: "nat \<Rightarrow> block list \<Rightarrow> block list" where
  "remove_paragraph i [] = []"
| "remove_paragraph i (P p # bs) =
     (case i of 0 \<Rightarrow> bs | Suc j \<Rightarrow> P p # remove_paragraph j bs)"
| "remove_paragraph i (b # bs) = b # remove_paragraph i bs"

text \<open>
  The loop that deletes \<^verbatim>\<open>doc.paragraphs[i]\<close> for each \<open>i\<close> of the range, from the end. What
  is returned with an exception is the body as the exception found it.
\<close>

fun delete_range :: "int list \<Rightarrow> block list \<Rightarrow> py_exn option \<times> block list" where
  "delete_range [] bs = (None, bs)"
| "delete_range (i # is) bs =
     (case py_index (block_paragraphs bs) i of
        Inl e \<Rightarrow> (Some e, bs)
      | Inr j \<Rightarrow> delete_range is (remove_paragraph j bs))"

text \<open>
  The paragraph made for one line of the new content: the saved style and alignment, and
  one run with the line, formatted as the first saved run. With an exception comes the
  run, or the paragraph, as the exception left it.
\<close>

definition formatted_run :: "string \<Rightarrow> run_info \<Rightarrow> py_exn option \<times> run" where
  "formatted_run content run_info =
     (case add_run content of
        (Some e, run) \<Rightarrow> (Some e, run)
      | (None, run) \<Rightarrow>
          (let run1 = run\<lparr> r_bold := ri_bold run_info, r_italic := ri_italic run_info,
                            r_underline := ri_underline run_info \<rparr>
           in case (case ri_font_size run_info of
                      None \<Rightarrow> (None, run1)
                    | Some n \<Rightarrow> if n = 0 then (None, run1) else set_font_size n run1) of
                (Some e, run2) \<Rightarrow> (Some e, run2)
              | (None, run2) \<Rightarrow>
                  (case (case ri_font_name run_info of
                           None \<Rightarrow> (None, run2)
                         | Some f \<Rightarrow> if f = [] then (None, run2) else set_font_names f run2) of
                     (Some e, run3) \<Rightarrow> (Some e, run3)
                   | (None, run3) \<Rightarrow>
                       (None, case ri_color run_info of
                                None \<Rightarrow> run3
                              | Some c \<Rightarrow> run3\<lparr> r_color := Some c \<rparr>))))"

definition build_paragraph :: "style \<Rightarrow> style_info \<Rightarrow> string \<Rightarrow> py_exn option \<times> para" where
  "build_paragraph dflt style_info content =
     (let p0 = \<lparr> p_style = dflt, p_alignment = None, p_runs = [] \<rparr>;
          p1 = (case si_style style_info of None \<Rightarrow> p0 | Some s \<Rightarrow> p0\<lparr> p_style := s \<rparr>);
          p2 = (case si_alignment style_info of
                  None \<Rightarrow> p1
                | Some a \<Rightarrow> p1\<lparr> p_alignment := Some a \<rparr>)
      in case si_runs style_info of
           [] \<Rightarrow> set_para_text content p2
         | run_info # _ \<Rightarrow>
             (case formatted_run content run_info of
                (exn, run) \<Rightarrow> (exn, p2\<lparr> p_runs := [run] \<rparr>)))"

text \<open>
  \<^verbatim>\<open>parent.insert(i, e)\<close> of lxml for an element \<open>e\<close> that is already a child of the
  parent, at position \<open>j\<close>: an element has one place in the tree, so the insertion moves
  it. It goes before the child that is at index \<open>i\<close> when the call is made, or to the end
  when there is no such child.
\<close>

definition lxml_insert :: "nat \<Rightarrow> nat \<Rightarrow> 'a list \<Rightarrow> 'a list" where
  "lxml_insert i j xs =
     (let e = xs ! j; others = take j xs @ drop (Suc j) xs
      in if i \<ge> length xs then others @ [e]
         else if i = j then xs
         else if i < j then take i others @ e # drop i others
         else take (i - 1) others @ e # drop (i - 1) others)"

text \<open>
  The loop over the reversed new content. Each round adds a paragraph at the end of the
  document, fills it, inserts it at \<open>insert_position\<close> and then removes
  \<^verbatim>\<open>doc.paragraphs[-1]\<close>, the paragraph that is last at that moment. A paragraph that
  could not be filled stays at the end of the document.
\<close>

fun insert_content ::
  "style \<Rightarrow> nat \<Rightarrow> (string \<times> style_info) list \<Rightarrow> block list \<Rightarrow> py_exn option \<times> block list" where
  "insert_content dflt insert_position [] bs = (None, bs)"
| "insert_content dflt insert_position ((content, style_info) # rest) bs =
     (case build_paragraph dflt style_info content of
        (Some e, p) \<Rightarrow> (Some e, add_p p bs)
      | (None, p) \<Rightarrow>
          (let bs1 = add_p p bs;
               bs2 = lxml_insert insert_position (sectPr_index bs) bs1
           in case py_index (block_paragraphs bs2) (- 1) of
                Inl e \<Rightarrow> (Some e, bs2)
              | Inr k \<Rightarrow> insert_content dflt insert_position rest (remove_paragraph k bs2)))"

text \<open>
  What the two tools share once the range is known: save the formats, delete the range
  from its end, insert the new content. \<open>original_styles\<close> has one entry for each line
  when the insertion starts, so line \<open>k\<close> gets entry \<open>k\<close>.
\<close>

definition replace_blocks ::
  "document \<Rightarrow> success \<Rightarrow> int \<Rightarrow> int \<Rightarrow> string list \<Rightarrow> reply \<times> processor" where
  "replace_blocks doc done start_index end_index new_content =
     (case capture_styles (paragraphs doc)
             [start_index .. min end_index (start_index + int (length new_content)) - 1] [] of
        Inl e \<Rightarrow> (Inl (Failed e), Some doc)
      | Inr captured \<Rightarrow>
          (let original_styles = pad_styles (length new_content) captured;
               insert_position = start_index
           in case delete_range (rev [start_index .. end_index - 1]) (body doc) of
                (Some e, bs) \<Rightarrow> (Inl (Failed e), Some (doc\<lparr> body := bs \<rparr>))
              | (None, bs) \<Rightarrow>
                  (case insert_content (default_style doc) (nat insert_position)
                          (rev (zip new_content original_styles)) bs of
                     (Some e, bs') \<Rightarrow> (Inl (Failed e), Some (doc\<lparr> body := bs' \<rparr>))
                   | (None, bs') \<Rightarrow> (Inr done, Some (doc\<lparr> body := bs' \<rparr>)))))"

definition replace_section :: "processor \<Rightarrow> string \<Rightarrow> string list \<Rightarrow> bool \<Rightarrow> reply \<times> processor" where
  "replace_section st section_title new_content preserve_title =
     (case st of
        None \<Rightarrow> (Inl NoDocumentOpen, st)
      | Some doc \<Rightarrow>
          let title_index = find_title section_title 0 (paragraphs doc) in
          if title_index = - 1 then (Inl (TitleNotFound section_title), st)
          else
            let end_index = section_end (paragraphs doc) (nat title_index);
                start_delete = title_index + (if preserve_title then 1 else 0)
            in replace_blocks doc (ReplacedSection section_title) start_delete (int end_index)
                 new_content)"

text \<open>The positions of the paragraphs that contain the keyword.\<close>

fun keyword_indices :: "string \<Rightarrow> nat \<Rightarrow> para list \<Rightarrow> nat list" where
  "keyword_indices keyword i [] = []"
| "keyword_indices keyword i (p # ps) =
     (if py_in keyword (para_text p) then i # keyword_indices keyword (Suc i) ps
      else keyword_indices keyword (Suc i) ps)"

definition edit_section_by_keyword ::
  "processor \<Rightarrow> string \<Rightarrow> string list \<Rightarrow> int \<Rightarrow> reply \<times> processor" where
  "edit_section_by_keyword st keyword new_content section_range =
     (case st of
        None \<Rightarrow> (Inl NoDocumentOpen, st)
      | Some doc \<Rightarrow>
          (case keyword_indices keyword 0 (paragraphs doc) of
             [] \<Rightarrow> (Inl (KeywordNotFound keyword), st)
           | keyword_index # _ \<Rightarrow>
               let start_index = max 0 (int keyword_index - section_range);
                   end_index = min (int (length (paragraphs doc)))
                                   (int keyword_index + section_range + 1)
               in replace_blocks doc (ReplacedAround keyword) start_index end_index new_content))"

section \<open>table.py\<close>

text \<open>
  \<^verbatim>\<open>len(table.rows)\<close> counts the row elements; \<^verbatim>\<open>len(table.columns)\<close> counts the
  \<^verbatim>\<open>w:gridCol\<close> children of the grid, and raises when the table has no grid element.
\<close>

definition columns_len :: "table \<Rightarrow> py_exn + nat" where
  "columns_len t = (case tblGrid t of None \<Rightarrow> Inl InvalidXmlError | Some g \<Rightarrow> Inr (length g))"

text \<open>The \<open>i\<close>-th table of the body, replaced by the blocks \<open>new\<close>.\<close>

fun replace_table :: "nat \<Rightarrow> block list \<Rightarrow> block list \<Rightarrow> block list" where
  "replace_table i new [] = []"
| "replace_table i new (T t # bs) =
     (case i of 0 \<Rightarrow> new @ bs | Suc j \<Rightarrow> T t # replace_table j new bs)"
| "replace_table i new (b # bs) = b # replace_table i new bs"

subsection \<open>\<^verbatim>\<open>merge_table_cells\<close>\<close>

text \<open>
  The merge itself is python-docx's: \<^verbatim>\<open>table.cell(r, c)\<close> for the two corners and
  \<^verbatim>\<open>start_cell.merge(end_cell)\<close>. It is the parameter \<open>cell_merge\<close>, which gets the table
  and the two corners and gives the merged table or the exception raised.
\<close>

definition merge_table_cells ::
  "(table \<Rightarrow> nat \<Rightarrow> nat \<Rightarrow> nat \<Rightarrow> nat \<Rightarrow> py_exn + table)
     \<Rightarrow> processor \<Rightarrow> int \<Rightarrow> int \<Rightarrow> int \<Rightarrow> int \<Rightarrow> int \<Rightarrow> reply \<times> processor" where
  "merge_table_cells cell_merge st table_index start_row start_col end_row end_col =
     (case st of
        None \<Rightarrow> (Inl NoDocumentOpen, st)
      | Some doc \<Rightarrow>
          if tables doc = [] then (Inl NoTables, st)
          else if table_index < 0 \<or> table_index \<ge> int (length (tables doc))
          then (Inl (TableIndexOutOfRange table_index (length (tables doc))), st)
          else
            let table = tables doc ! nat table_index; rows = length (tbl_trs table) in
            if start_row < 0 \<or> start_row \<ge> int rows
            then (Inl (StartRowOutOfRange start_row rows), st)
            else
              (case columns_len table of
                 Inl e \<Rightarrow> (Inl (Failed e), st)
               | Inr cols \<Rightarrow>
                   if start_col < 0 \<or> start_col \<ge> int cols
                   then (Inl (StartColumnOutOfRange start_col cols), st)
                   else if end_row < start_row \<or> end_row \<ge> int rows
                   then (Inl (EndRowInvalid end_row start_row rows), st)
                   else if end_col < start_col \<or> end_col \<ge> int cols
                   then (Inl (EndColumnInvalid end_col start_col cols), st)
                   else
                     (case cell_merge table (nat start_row) (nat start_col) (nat end_row) (nat end_col) of
                        Inl e \<Rightarrow> (Inl (Failed e), st)
                      | Inr table' \<Rightarrow>
                          (Inr (MergedCells table_index start_row start_col end_row end_col),
                           Some (doc\<lparr> body :=
                             replace_table (nat table_index) [T table'] (body doc) \<rparr>)))))"

subsection \<open>\<^verbatim>\<open>split_table\<close>\<close>

text \<open>
  \<^verbatim>\<open>child.copy()\<close>: the children are lxml elements, and an lxml element has no method
  \<^verbatim>\<open>copy\<close> (copies are made with the \<^verbatim>\<open>copy\<close> module), so the call raises
  \<^verbatim>\<open>AttributeError\<close>.
\<close>

definition element_copy :: "xml \<Rightarrow> py_exn + xml" where
  "element_copy child = Inl AttributeError"

text \<open>
  \<^verbatim>\<open>for child in children: new_tbl.append(copy(child))\<close>, with the children that
  \<^verbatim>\<open>new_tbl\<close> has so far.
\<close>

fun append_copies :: "(xml \<Rightarrow> py_exn + xml) \<Rightarrow> xml list \<Rightarrow> xml list \<Rightarrow> py_exn + xml list" where
  "append_copies copy [] new_children = Inr new_children"
| "append_copies copy (child # children) new_children =
     (case copy child of
        Inl e \<Rightarrow> Inl e
      | Inr c \<Rightarrow> append_copies copy children (new_children @ [c]))"

text \<open>
  The tool with the copy left open. The new table element gets the copied children of
  \<^verbatim>\<open>w:tblPr\<close> and of \<^verbatim>\<open>w:tblGrid\<close> as children of its own, and then the rows from
  \<open>split_position\<close> on, which leave the original table. Until the rows move, nothing of
  the document has changed.
\<close>

definition split_table_with ::
  "(xml \<Rightarrow> py_exn + xml) \<Rightarrow> processor \<Rightarrow> int \<Rightarrow> int \<Rightarrow> reply \<times> processor" where
  "split_table_with copy st table_index row_index =
     (case st of
        None \<Rightarrow> (Inl NoDocumentOpen, st)
      | Some doc \<Rightarrow>
          if tables doc = [] then (Inl NoTables, st)
          else if table_index < 0 \<or> table_index \<ge> int (length (tables doc))
          then (Inl (TableIndexOutOfRange table_index (length (tables doc))), st)
          else
            let table = tables doc ! nat table_index in
            if row_index < 0 \<or> row_index \<ge> int (length (tbl_trs table)) - 1
            then (Inl (RowIndexInvalid row_index (length (tbl_trs table))), st)
            else
              let split_position = nat (row_index + 1) in
              (case tblPr table of
                 None \<Rightarrow> (Inl (Failed IndexError), st)
               | Some properties \<Rightarrow>
                   (case append_copies copy properties [] of
                      Inl e \<Rightarrow> (Inl (Failed e), st)
                    | Inr children1 \<Rightarrow>
                        (case tblGrid table of
                           None \<Rightarrow> (Inl (Failed IndexError), st)
                         | Some grid \<Rightarrow>
                             (case append_copies copy grid children1 of
                                Inl e \<Rightarrow> (Inl (Failed e), st)
                              | Inr children2 \<Rightarrow>
                                  let rows = tbl_trs table;
                                      new_tbl = \<lparr> tblPr = None, tblGrid = None,
                                                  tbl_other = children2,
                                                  tbl_trs = drop split_position rows \<rparr>;
                                      tbl = table\<lparr> tbl_trs := take split_position rows \<rparr>
                                  in (Inr (SplitTable table_index row_index),
                                      Some (doc\<lparr> body :=
                                        replace_table (nat table_index) [T tbl, T new_tbl]
                                          (body doc) \<rparr>)))))))"

definition split_table :: "processor \<Rightarrow> int \<Rightarrow> int \<Rightarrow> reply \<times> processor" where
  "split_table st table_index row_index = split_table_with element_copy st table_index row_index"

section \<open>Notions for the properties\<close>

text \<open>
  The texts of a document: those of the paragraphs of the body, then those of the
  paragraphs of the cells, table by table and row by row.
\<close>

definition row_texts :: "tc list \<Rightarrow> string list" where
  "row_texts row = concat (map (\<lambda>c. map para_text (tc_paras c)) row)"

definition table_texts :: "table \<Rightarrow> string list" where
  "table_texts t = concat (map row_texts (tbl_trs t))"

definition doc_texts :: "document \<Rightarrow> string list" where
  "doc_texts doc = map para_text (paragraphs doc) @ concat (map table_texts (tables doc))"

text \<open>
  The count the specification gives for \<^verbatim>\<open>find_and_replace\<close>: over the texts that
  contained \<open>find_text\<close>, the occurrences of \<open>replace_text\<close> in the text with every
  occurrence of \<open>find_text\<close> replaced.
\<close>

definition recount :: "string \<Rightarrow> string \<Rightarrow> string list \<Rightarrow> nat" where
  "recount find_text replace_text ts =
     sum_list (map (\<lambda>t. py_count replace_text (py_replace find_text replace_text t))
                   (filter (py_in find_text) ts))"

text \<open>
  The arguments of \<^verbatim>\<open>add_paragraph\<close> that python-docx and lxml take: a text and a font
  name of characters of XML, and a font size that is an unsigned 64-bit number of English
  Metric Units.
\<close>

definition accepted :: "string \<Rightarrow> int option \<Rightarrow> string option \<Rightarrow> bool" where
  "accepted text font_size font_name =
     (list_all xml_char text
      \<and> (case font_size of None \<Rightarrow> True | Some n \<Rightarrow> 0 \<le> Pt n \<and> Pt n \<le> 18446744073709551615)
      \<and> (case font_name of None \<Rightarrow> True | Some f \<Rightarrow> list_all xml_char f))"

section \<open>Example documents\<close>

definition Normal :: style where
  "Normal = \<lparr> style_id = ''Normal'', style_name = ''Normal'' \<rparr>"

definition Heading1 :: style where
  "Heading1 = \<lparr> style_id = ''Heading1'', style_name = ''Heading 1'' \<rparr>"

definition text_paragraph :: "style \<Rightarrow> string \<Rightarrow> para" where
  "text_paragraph s t = \<lparr> p_style = s, p_alignment = None, p_runs = [plain_run t] \<rparr>"

text \<open>
  A paragraph with the text \<open>t\<close>, then a table whose grid has two columns and whose rows
  are \<open>rows\<close>. A cell \<open>text_cell 2 None t\<close> is merged over both columns of its row; a cell
  \<open>text_cell 1 (Some Restart) t\<close> is merged over two rows when the cell below it continues
  the merge.
\<close>

definition text_cell :: "nat \<Rightarrow> vmerge option \<Rightarrow> string \<Rightarrow> tc" where
  "text_cell span merge t =
     \<lparr> tc_grid_span = span, tc_vMerge = merge, tc_paras = [text_paragraph Normal t] \<rparr>"

definition rows_document :: "string \<Rightarrow> tc list list \<Rightarrow> document" where
  "rows_document t rows =
     \<lparr> default_style = Normal,
       body = [P (text_paragraph Normal t),
               T \<lparr> tblPr = Some [''tblStyle'', ''tblW''], tblGrid = Some [''gridCol'', ''gridCol''],
                  tbl_other = [], tbl_trs = rows \<rparr>,
               SectPr] \<rparr>"

text \<open>The four paragraphs of the scenario of \<^verbatim>\<open>replace_section\<close>, then \<open>tail\<close>.\<close>

definition scenario_document :: "block list \<Rightarrow> document" where
  "scenario_document tail =
     \<lparr> default_style = Normal,
       body = [P (text_paragraph Heading1 ''Title A''), P (text_paragraph Normal ''Hello''),
               P (text_paragraph Heading1 ''Title B''), P (text_paragraph Normal ''World'')]
              @ tail \<rparr>"

text \<open>The table \<^verbatim>\<open>add_table(rows, cols)\<close> makes: one empty paragraph in every cell.\<close>

definition empty_cell :: "style \<Rightarrow> tc" where
  "empty_cell dflt = \<lparr> tc_grid_span = 1, tc_vMerge = None,
     tc_paras = [\<lparr> p_style = dflt, p_alignment = None, p_runs = [] \<rparr>] \<rparr>"

definition new_table :: "style \<Rightarrow> nat \<Rightarrow> nat \<Rightarrow> table" where
  "new_table dflt rows cols =
     \<lparr> tblPr = Some [''tblStyle'', ''tblW'', ''tblLook''], tblGrid = Some (replicate cols ''gridCol''),
       tbl_other = [], tbl_trs = replicate rows (replicate cols (empty_cell dflt)) \<rparr>"

definition table_document :: "nat \<Rightarrow> nat \<Rightarrow> document" where
  "table_document rows cols =
     \<lparr> default_style = Normal, body = [T (new_table Normal rows cols), SectPr] \<rparr>"

section \<open>Properties\<close>

subsection \<open>The scenario of \<^verbatim>\<open>replace_section\<close>\<close>

text \<open>
  C1. On the document whose paragraphs are "Title A" (Heading 1), "Hello", "Title B"
  (Heading 1) and "World", \<^verbatim>\<open>replace_section("Title A", ["NewLine1", "NewLine2"], True)\<close>
  reports success, but the paragraphs it leaves are "Title A", "NewLine1", "NewLine2":
  "Title B" and "World" are gone, not kept after the new lines. Each round of the
  insertion loop moves the new paragraph from the end of the document to its place and
  then removes the paragraph that is last, which by then is a paragraph of the document
  and not the one just added. It is so with and without section properties at the end of
  the body.
\<close>

theorem replace_section_scenario_loses_tail:
  "fst (replace_section (Some (scenario_document [])) ''Title A'' [''NewLine1'', ''NewLine2''] True)
     = Inr (ReplacedSection ''Title A'')
   \<and> map_option (map para_text \<circ> paragraphs)
       (snd (replace_section (Some (scenario_document [])) ''Title A'' [''NewLine1'', ''NewLine2''] True))
     = Some [''Title A'', ''NewLine1'', ''NewLine2'']
   \<and> map_option (map para_text \<circ> paragraphs)
       (snd (replace_section (Some (scenario_document [SectPr])) ''Title A'' [''NewLine1'', ''NewLine2''] True))
     = Some [''Title A'', ''NewLine1'', ''NewLine2'']"
  by code_simp

subsection \<open>\<^verbatim>\<open>split_table\<close>\<close>

lemma append_copies_element_copy:
  "children \<noteq> [] \<Longrightarrow> append_copies element_copy children new_children = Inl AttributeError"
  by (cases children) (simp_all add: element_copy_def)

lemma split_table_unchanged:
  "snd (split_table st table_index row_index) = st
   \<or> (\<exists>doc. st = Some doc \<and> tblPr (tables doc ! nat table_index) = Some []
          \<and> tblGrid (tables doc ! nat table_index) = Some [])"
proof (cases st)
  case None
  then show ?thesis by (simp add: split_table_def split_table_with_def)
next
  case (Some doc)
  let ?t = "tables doc ! nat table_index"
  show ?thesis
  proof (cases "tblPr ?t = Some [] \<and> tblGrid ?t = Some []")
    case True
    with Some show ?thesis by simp
  next
    case False
    have "snd (split_table st table_index row_index) = st"
    proof (cases "tblPr ?t")
      case None
      with Some show ?thesis by (simp add: split_table_def split_table_with_def Let_def)
    next
      case (Some pr)
      note pr = this
      show ?thesis
      proof (cases "pr = []")
        case False
        with pr \<open>st = Some doc\<close> show ?thesis
          by (simp add: split_table_def split_table_with_def Let_def append_copies_element_copy)
      next
        case True
        with False pr have "tblGrid ?t \<noteq> Some []" by simp
        then show ?thesis using pr True \<open>st = Some doc\<close>
          by (cases "tblGrid ?t")
             (simp_all add: split_table_def split_table_with_def Let_def append_copies_element_copy)
      qed
    qed
    then show ?thesis by simp
  qed
qed

text \<open>
  Had the copies been made (\<open>Inr\<close> for the copy), a split at a valid row would put a new
  table right after the original, leave the original the rows up to \<open>row_index\<close> and give
  the new one the rest, in their order. The new table would have no \<^verbatim>\<open>w:tblPr\<close> and no
  \<^verbatim>\<open>w:tblGrid\<close> element of its own: the copied children hang on the table itself.
\<close>

lemma block_tables_replace_table:
  "i < length (block_tables bs) \<Longrightarrow>
   block_tables (replace_table i [T a, T b] bs)
     = take i (block_tables bs) @ [a, b] @ drop (Suc i) (block_tables bs)"
proof (induction bs arbitrary: i)
  case Nil
  then show ?case by simp
next
  case (Cons x bs)
  then show ?case by (cases x; cases i) simp_all
qed

lemma append_copies_Inr: "append_copies Inr children new_children = Inr (new_children @ children)"
  by (induction children arbitrary: new_children) simp_all

lemma split_table_with_working_copy:
  assumes "0 \<le> table_index" "table_index < int (length (tables doc))"
    and "0 \<le> row_index" "row_index < int (length (tbl_trs (tables doc ! nat table_index))) - 1"
    and "tblPr (tables doc ! nat table_index) = Some properties"
    and "tblGrid (tables doc ! nat table_index) = Some grid"
  shows "\<exists>doc'. split_table_with Inr (Some doc) table_index row_index
                  = (Inr (SplitTable table_index row_index), Some doc')
     \<and> tables doc' =
         take (nat table_index) (tables doc)
         @ [(tables doc ! nat table_index)
              \<lparr> tbl_trs := take (nat row_index + 1) (tbl_trs (tables doc ! nat table_index)) \<rparr>,
            \<lparr> tblPr = None, tblGrid = None, tbl_other = properties @ grid,
              tbl_trs = drop (nat row_index + 1) (tbl_trs (tables doc ! nat table_index)) \<rparr>]
         @ drop (Suc (nat table_index)) (tables doc)"
proof -
  from assms(1,2) have i: "nat table_index < length (block_tables (body doc))"
    by (simp add: tables_def)
  from assms(1,2) have ne: "tables doc \<noteq> []" by auto
  from assms(3) have n: "nat (row_index + 1) = nat row_index + 1" by simp
  show ?thesis
    using assms ne block_tables_replace_table [OF i]
    by (simp add: split_table_with_def Let_def append_copies_Inr tables_def n)
qed

text \<open>
  C2. \<^verbatim>\<open>split_table(0, 0)\<close> on a document with one table of two rows and two columns, as
  \<^verbatim>\<open>add_table(2, 2)\<close> makes it, does not succeed: copying the first child of the table
  properties raises, the tool returns the failure message, and the document is as it was,
  with one table of two rows.
\<close>

theorem split_table_fails:
  "split_table (Some (table_document 2 2)) 0 0 = (Inl (Failed AttributeError), Some (table_document 2 2))"
  by code_simp

subsection \<open>\<^verbatim>\<open>search_and_replace\<close>\<close>

text \<open>A preview writes nothing: the document after it is the document before it.\<close>

lemma sar_paragraphs_preview_body:
  "snd (sar_paragraphs k r True i bs) = bs"
proof (induction bs arbitrary: i)
  case Nil
  show ?case by simp
next
  case (Cons b bs)
  then show ?case by (cases b) (simp_all add: case_prod_beta Let_def split: sum.splits)
qed

lemma sar_cells_preview_rows:
  "snd (sar_cells k r True t_idx r_idx c_idx refs trs) = trs"
  by (induction refs arbitrary: c_idx) (simp_all add: case_prod_beta Let_def split: sum.splits)

lemma sar_rows_preview_rows:
  "snd (sar_rows k r True t_idx rs trs) = trs"
proof (induction rs)
  case Nil
  show ?case by simp
next
  case (Cons r_idx rs)
  show ?case
  proof (cases "row_cells trs r_idx")
    case (Inl e)
    then show ?thesis by simp
  next
    case (Inr refs)
    with Cons sar_cells_preview_rows [of k r t_idx r_idx 0 refs trs] show ?thesis
      by (simp add: case_prod_beta split: sum.splits)
  qed
qed

lemma sar_tables_preview_body:
  "snd (sar_tables k r True t_idx bs) = bs"
proof (induction bs arbitrary: t_idx)
  case Nil
  show ?case by simp
next
  case (Cons b bs)
  show ?case
  proof (cases b)
    case (T t)
    with Cons sar_rows_preview_rows [of k r t_idx "[0 ..< length (tbl_trs t)]" "tbl_trs t"]
    show ?thesis by (simp add: case_prod_beta split: sum.splits)
  qed (use Cons in \<open>simp_all add: case_prod_beta\<close>)
qed

lemma sar_preview_state: "snd (search_and_replace st k r True) = st"
proof (cases st)
  case None
  then show ?thesis by (simp add: search_and_replace_def)
next
  case (Some doc)
  with sar_paragraphs_preview_body [of k r 0 "body doc"]
    sar_tables_preview_body [of k r 0 "body doc"]
  show ?thesis
    by (simp add: search_and_replace_def case_prod_beta split: sum.splits)
qed

text \<open>
  C3. The preview and the replacing call do not report the same on a document with a
  merged cell, which is in \<^verbatim>\<open>row.cells\<close> once for each grid position it covers. With
  "foo" in a cell merged over the two columns of its row, the preview reports the cell at
  columns 0 and 1 and leaves the document as it was; the replacing call rewrites the cell at
  column 0, finds no keyword in it at column 1 and reports column 0 only. With "foo" in
  a cell merged over two rows it is the same: the preview reports the cell in rows 0
  and 1, the replacing call in row 0.
\<close>

theorem search_and_replace_merged_cell_reports:
  "search_and_replace (Some (rows_document ''x'' [[text_cell 2 None ''foo'']])) ''foo'' ''bar'' True
     = (Inr (Report True ''foo'' ''bar''
               [ReplaceResult (InCell 0 0 0) ''foo'' ''bar'' 1,
                ReplaceResult (InCell 0 0 1) ''foo'' ''bar'' 1]),
        Some (rows_document ''x'' [[text_cell 2 None ''foo'']]))
   \<and> search_and_replace (Some (rows_document ''x'' [[text_cell 2 None ''foo'']])) ''foo'' ''bar'' False
     = (Inr (Report False ''foo'' ''bar'' [ReplaceResult (InCell 0 0 0) ''foo'' ''bar'' 1]),
        Some (rows_document ''x'' [[text_cell 2 None ''bar'']]))
   \<and> fst (search_and_replace
             (Some (rows_document ''x''
                [[text_cell 1 (Some Restart) ''foo'', text_cell 1 None ''a''],
                 [(empty_cell Normal)\<lparr> tc_vMerge := Some Continue \<rparr>, text_cell 1 None ''b'']]))
             ''foo'' ''bar'' True)
     = Inr (Report True ''foo'' ''bar''
              [ReplaceResult (InCell 0 0 0) ''foo'' ''bar'' 1,
               ReplaceResult (InCell 0 1 0) ''foo'' ''bar'' 1])
   \<and> fst (search_and_replace
             (Some (rows_document ''x''
                [[text_cell 1 (Some Restart) ''foo'', text_cell 1 None ''a''],
                 [(empty_cell Normal)\<lparr> tc_vMerge := Some Continue \<rparr>, text_cell 1 None ''b'']]))
             ''foo'' ''bar'' False)
     = Inr (Report False ''foo'' ''bar'' [ReplaceResult (InCell 0 0 0) ''foo'' ''bar'' 1])"
  by code_simp

subsection \<open>\<^verbatim>\<open>delete_text\<close>\<close>

text \<open>
  C4. In an open document, \<^verbatim>\<open>delete_text(p, s, e)\<close> with \<open>e \<le> s\<close>, or with \<open>s\<close> outside
  the bounds of the text of paragraph \<open>p\<close>, returns an error message and leaves the
  document, hence the text of every paragraph, as it was.
\<close>

theorem delete_text_invalid_range_refused:
  assumes "e \<le> s \<or> s < 0 \<or> int (length (para_text (paragraphs doc ! nat p))) \<le> s"
  shows "isl (fst (delete_text (Some doc) p s e)) \<and> snd (delete_text (Some doc) p s e) = Some doc"
  using assms by (auto simp: delete_text_def Let_def)

theorem delete_text_invalid_range_refused_witness:
  "isl (fst (delete_text (Some (scenario_document [])) 1 3 2))
   \<and> snd (delete_text (Some (scenario_document [])) 1 3 2) = Some (scenario_document [])
   \<and> isl (fst (delete_text (Some (scenario_document [])) 1 5 6))
   \<and> snd (delete_text (Some (scenario_document [])) 1 5 6) = Some (scenario_document [])"
proof -
  have a: "(2::int) \<le> 3 \<or> (3::int) < 0
           \<or> int (length (para_text (paragraphs (scenario_document []) ! nat 1))) \<le> 3"
    by simp
  have l: "int (length (para_text (paragraphs (scenario_document []) ! nat 1))) = 5"
    by code_simp
  from l have b: "(6::int) \<le> 5 \<or> (5::int) < 0
           \<or> int (length (para_text (paragraphs (scenario_document []) ! nat 1))) \<le> 5"
    by simp
  from delete_text_invalid_range_refused [OF a] delete_text_invalid_range_refused [OF b]
  show ?thesis by simp
qed

subsection \<open>\<^verbatim>\<open>merge_table_cells\<close>\<close>

text \<open>
  C5. In an open document, \<^verbatim>\<open>merge_table_cells\<close> with \<open>end_row < start_row\<close> or
  \<open>end_col < start_col\<close> returns an error message and leaves the document, hence every
  table grid, as it was, whatever the merge of python-docx would do.
\<close>

theorem merge_table_cells_inverted_range_refused:
  assumes "end_row < start_row \<or> end_col < start_col"
  shows "isl (fst (merge_table_cells cell_merge (Some doc) table_index start_row start_col end_row end_col))
       \<and> snd (merge_table_cells cell_merge (Some doc) table_index start_row start_col end_row end_col) = Some doc"
  using assms by (auto simp: merge_table_cells_def Let_def split: sum.splits)

theorem merge_table_cells_inverted_range_refused_witness:
  "fst (merge_table_cells (\<lambda>t r c r' c'. Inr t) (Some (table_document 2 2)) 0 1 1 0 1)
     = Inl (EndRowInvalid 0 1 2)
   \<and> snd (merge_table_cells (\<lambda>t r c r' c'. Inr t) (Some (table_document 2 2)) 0 1 1 0 1)
     = Some (table_document 2 2)"
proof -
  have v: "fst (merge_table_cells (\<lambda>t r c r' c'. Inr t) (Some (table_document 2 2)) 0 1 1 0 1)
     = Inl (EndRowInvalid 0 1 2)" by code_simp
  from merge_table_cells_inverted_range_refused [of 0 1 1 1 "\<lambda>t r c r' c'. Inr t" "table_document 2 2" 0] v
  show ?thesis by simp
qed

subsection \<open>The colour of \<^verbatim>\<open>add_paragraph\<close>\<close>

lemma hex_digit_facts:
  "hex_digit c = Some d \<Longrightarrow>
   \<not> py_isspace c \<and> c \<noteq> CHR ''-'' \<and> c \<noteq> CHR ''+'' \<and> c \<noteq> CHR ''_''
   \<and> c \<noteq> CHR ''x'' \<and> c \<noteq> CHR ''X'' \<and> d < 16"
  by (auto simp: hex_digit_def py_isspace_def Let_def split: if_splits)

lemma py_int16_two_digits:
  assumes "hex_digit a = Some x" and "hex_digit b = Some y"
  shows "py_int16 [a, b] = Inr (int (16 * x + y))"
proof -
  note fa = hex_digit_facts [OF assms(1)] and fb = hex_digit_facts [OF assms(2)]
  from fa fb have t: "rev (dropWhile py_isspace (rev (dropWhile py_isspace [a, b]))) = [a, b]"
    by simp
  show ?thesis
    unfolding py_int16_def t using fa fb assms by (simp add: Let_def)
qed

lemma parse_color_ignored:
  "\<not> (c \<noteq> [] \<and> startswith c ''#'' \<and> length c = 7) \<Longrightarrow> parse_color (Some c) = parse_color None"
  by (auto simp: parse_color_def)

lemma parse_color_hex:
  assumes "hex_digit r1 = Some x1" "hex_digit r2 = Some x2"
          "hex_digit g1 = Some y1" "hex_digit g2 = Some y2"
          "hex_digit b1 = Some z1" "hex_digit b2 = Some z2"
  shows "parse_color (Some [CHR ''#'', r1, r2, g1, g2, b1, b2])
         = Inr (Some (int (16 * x1 + x2), int (16 * y1 + y2), int (16 * z1 + z2)))"
proof -
  from assms have "x1 < 16" "x2 < 16" "y1 < 16" "y2 < 16" "z1 < 16" "z2 < 16"
    by (auto dest: hex_digit_facts)
  then have "RGBColor (int (16 * x1 + x2)) (int (16 * y1 + y2)) (int (16 * z1 + z2))
           = Inr (int (16 * x1 + x2), int (16 * y1 + y2), int (16 * z1 + z2))"
    by (simp add: RGBColor_def)
  then show ?thesis
    using py_int16_two_digits [OF assms(1,2)] py_int16_two_digits [OF assms(3,4)]
      py_int16_two_digits [OF assms(5,6)]
    by (simp add: parse_color_def)
qed

text \<open>
  A text of characters of XML is written whole, and read back with a newline for each
  carriage return.
\<close>

lemma flush_accepted: "list_all xml_char bfr \<Longrightarrow> flush content bfr = (None, content @ bfr)"
  by (simp add: flush_def)

lemma append_to_run_accepted:
  "list_all xml_char bfr \<Longrightarrow> list_all xml_char t \<Longrightarrow>
   append_to_run content bfr t = (None, content @ bfr @ read_back t)"
proof (induction t arbitrary: content bfr)
  case Nil
  then show ?case by (simp add: flush_accepted read_back_def)
next
  case (Cons c cs)
  from Cons.prems have cs: "list_all xml_char cs" and c: "xml_char c" by simp_all
  have rb: "read_back (c # cs) = (if c = CHR 0x0D then CHR 0x0A else c) # read_back cs"
    by (simp add: read_back_def)
  show ?case
  proof (cases "c = CHR 0x09 \<or> c = CHR 0x0D \<or> c = CHR 0x0A")
    case True
    have e: "list_all xml_char ([]::string)" by simp
    from True Cons.prems(1) Cons.IH [OF e cs] show ?thesis
      by (auto simp: flush_accepted rb)
  next
    case False
    from Cons.prems(1) c have "list_all xml_char (bfr @ [c])" by simp
    from Cons.IH [OF this cs] False show ?thesis by (simp add: rb)
  qed
qed

lemma add_run_accepted: "list_all xml_char t \<Longrightarrow> add_run t = (None, plain_run (read_back t))"
  using append_to_run_accepted [of "[]" t "[]"] by (simp add: add_run_def)

text \<open>
  With a size and a font name that are accepted, the statements on the first run end
  with the colour, which is the only one that can still raise.
\<close>

lemma format_run_accepted:
  assumes "case font_size of None \<Rightarrow> True | Some n \<Rightarrow> 0 \<le> Pt n \<and> Pt n \<le> 18446744073709551615"
    and "case font_name of None \<Rightarrow> True | Some f \<Rightarrow> list_all xml_char f"
    and "parse_color color = Inr rgb"
  shows "\<exists>run'. format_run bold italic underline font_size font_name color run = (None, run')
           \<and> r_text run' = r_text run
           \<and> r_color run' = (case rgb of None \<Rightarrow> r_color run | Some c \<Rightarrow> Some c)"
  using assms
  by (auto simp: format_run_def set_font_size_def set_font_names_def set_font_name_def Let_def
           split: option.splits)

lemma format_run_ignored:
  assumes "\<not> (c \<noteq> [] \<and> startswith c ''#'' \<and> length c = 7)"
  shows "format_run bold italic underline font_size font_name (Some c) run
     = format_run bold italic underline font_size font_name None run"
  unfolding format_run_def parse_color_ignored [OF assms] by (rule refl)

lemma set_alignment_runs: "p_runs (set_alignment alignment p) = p_runs p"
  by (simp add: set_alignment_def split: option.splits)

lemma add_paragraph_accepted:
  assumes "accepted text font_size font_name" and "parse_color color = Inr rgb"
  shows "\<exists>p. add_paragraph (Some doc) text bold italic underline font_size font_name color alignment
              = (Inr ParagraphAdded, Some (doc\<lparr> body := add_p p (body doc) \<rparr>))
           \<and> para_text p = read_back text
           \<and> (text \<noteq> [] \<longrightarrow>
                map r_color (p_runs p) = [case rgb of None \<Rightarrow> None | Some c \<Rightarrow> Some c])"
proof (cases "text = []")
  case True
  let ?p = "set_alignment alignment
              \<lparr> p_style = default_style doc, p_alignment = None, p_runs = [] \<rparr>"
  have "para_text ?p = read_back text"
    using True by (simp add: para_text_def set_alignment_runs read_back_def)
  with True show ?thesis
    by (intro exI [of _ ?p]) (simp add: add_paragraph_def Let_def)
next
  case False
  from assms(1) have t: "list_all xml_char text"
    and s: "case font_size of None \<Rightarrow> True | Some n \<Rightarrow> 0 \<le> Pt n \<and> Pt n \<le> 18446744073709551615"
    and n: "case font_name of None \<Rightarrow> True | Some f \<Rightarrow> list_all xml_char f"
    by (simp_all add: accepted_def)
  let ?run = "plain_run (read_back text)"
  from format_run_accepted [OF s n assms(2), of bold italic underline ?run]
  obtain run' where f: "format_run bold italic underline font_size font_name color ?run = (None, run')"
    and rt0: "r_text run' = r_text ?run"
    and rc0: "r_color run' = (case rgb of None \<Rightarrow> r_color ?run | Some c \<Rightarrow> Some c)"
    by blast
  from rt0 have rt: "r_text run' = read_back text" by (simp add: plain_run_def)
  from rc0 have rc: "r_color run' = (case rgb of None \<Rightarrow> None | Some c \<Rightarrow> Some c)"
    by (simp add: plain_run_def split: option.splits)
  let ?p = "set_alignment alignment
              \<lparr> p_style = default_style doc, p_alignment = None, p_runs = [run'] \<rparr>"
  have "add_paragraph (Some doc) text bold italic underline font_size font_name color alignment
          = (Inr ParagraphAdded, Some (doc\<lparr> body := add_p ?p (body doc) \<rparr>))"
    using False by (simp add: add_paragraph_def Let_def add_run_accepted [OF t] f)
  moreover have "para_text ?p = read_back text"
    by (simp add: para_text_def set_alignment_runs rt)
  moreover have "map r_color (p_runs ?p) = [case rgb of None \<Rightarrow> None | Some c \<Rightarrow> Some c]"
    by (simp add: set_alignment_runs rc)
  ultimately show ?thesis by (intro exI [of _ ?p]) simp
qed

lemma add_paragraph_red_values:
  "fst (add_paragraph (Some (scenario_document [])) ''x'' False False False None None (Some ''red'') None)
     = Inr ParagraphAdded
   \<and> map_option (\<lambda>d. map (map r_color \<circ> p_runs) (paragraphs d))
       (snd (add_paragraph (Some (scenario_document [])) ''x'' False False False None None (Some ''red'') None))
     = Some [[None], [None], [None], [None], [None]]"
  by code_simp

text \<open>
  C6, as the code has it. A colour is looked at only when the argument is not empty, starts
  with \<^verbatim>\<open>#\<close> and has seven characters. An argument that fails this test is ignored: the
  call does what it does without a colour, and with a text, a size and a font name that
  python-docx accepts it returns "Paragraph added". When the argument is \<^verbatim>\<open>#\<close> and six
  hexadecimal digits and the text is not empty, such a call adds the paragraph, which
  reads the text with a newline for each carriage return, and its run has the colour of
  the three channels.
\<close>

theorem add_paragraph_color_guard:
  "(\<not> (c \<noteq> [] \<and> startswith c ''#'' \<and> length c = 7) \<longrightarrow>
      add_paragraph st text bold italic underline font_size font_name (Some c) alignment
        = add_paragraph st text bold italic underline font_size font_name None alignment
      \<and> (accepted text font_size font_name \<longrightarrow>
           fst (add_paragraph (Some doc) text bold italic underline font_size font_name (Some c)
                  alignment)
             = Inr ParagraphAdded))
   \<and> (text \<noteq> [] \<and> accepted text font_size font_name
       \<and> hex_digit r1 = Some x1 \<and> hex_digit r2 = Some x2 \<and> hex_digit g1 = Some y1
       \<and> hex_digit g2 = Some y2 \<and> hex_digit b1 = Some z1 \<and> hex_digit b2 = Some z2 \<longrightarrow>
      (\<exists>p. add_paragraph (Some doc) text bold italic underline font_size font_name
              (Some [CHR ''#'', r1, r2, g1, g2, b1, b2]) alignment
            = (Inr ParagraphAdded, Some (doc\<lparr> body := add_p p (body doc) \<rparr>))
          \<and> para_text p = read_back text
          \<and> map r_color (p_runs p)
              = [Some (int (16 * x1 + x2), int (16 * y1 + y2), int (16 * z1 + z2))]))"
proof (intro conjI impI)
  assume g: "\<not> (c \<noteq> [] \<and> startswith c ''#'' \<and> length c = 7)"
  show "add_paragraph st text bold italic underline font_size font_name (Some c) alignment
        = add_paragraph st text bold italic underline font_size font_name None alignment"
    unfolding add_paragraph_def format_run_ignored [OF g] by (rule refl)
next
  assume g: "\<not> (c \<noteq> [] \<and> startswith c ''#'' \<and> length c = 7)"
    and a: "accepted text font_size font_name"
  have "parse_color None = Inr None" by (simp add: parse_color_def)
  with parse_color_ignored [OF g] have "parse_color (Some c) = Inr None" by simp
  from add_paragraph_accepted [OF a this, of doc bold italic underline alignment]
  show "fst (add_paragraph (Some doc) text bold italic underline font_size font_name (Some c)
               alignment) = Inr ParagraphAdded"
    by auto
next
  assume h: "text \<noteq> [] \<and> accepted text font_size font_name
       \<and> hex_digit r1 = Some x1 \<and> hex_digit r2 = Some x2 \<and> hex_digit g1 = Some y1
       \<and> hex_digit g2 = Some y2 \<and> hex_digit b1 = Some z1 \<and> hex_digit b2 = Some z2"
  then have pc: "parse_color (Some [CHR ''#'', r1, r2, g1, g2, b1, b2])
         = Inr (Some (int (16 * x1 + x2), int (16 * y1 + y2), int (16 * z1 + z2)))"
    by (intro parse_color_hex) simp_all
  from h have a: "accepted text font_size font_name" and t: "text \<noteq> []" by simp_all
  from add_paragraph_accepted [OF a pc, of doc bold italic underline alignment] t
  show "\<exists>p. add_paragraph (Some doc) text bold italic underline font_size font_name
              (Some [CHR ''#'', r1, r2, g1, g2, b1, b2]) alignment
            = (Inr ParagraphAdded, Some (doc\<lparr> body := add_p p (body doc) \<rparr>))
          \<and> para_text p = read_back text
          \<and> map r_color (p_runs p)
              = [Some (int (16 * x1 + x2), int (16 * y1 + y2), int (16 * z1 + z2))]"
    by auto
qed

theorem add_paragraph_color_guard_witness:
  "add_paragraph (Some (scenario_document [])) ''x'' True False False (Some 12) (Some ''Arial'')
       (Some ''red'') None
     = add_paragraph (Some (scenario_document [])) ''x'' True False False (Some 12) (Some ''Arial'')
         None None
   \<and> fst (add_paragraph (Some (scenario_document [])) ''x'' True False False (Some 12)
            (Some ''Arial'') (Some ''red'') None)
     = Inr ParagraphAdded
   \<and> (\<exists>p. add_paragraph (Some (scenario_document [])) ''x'' True False False (Some 12)
              (Some ''Arial'') (Some ''#ff0000'') None
            = (Inr ParagraphAdded,
               Some ((scenario_document [])\<lparr> body := add_p p (body (scenario_document [])) \<rparr>))
          \<and> para_text p = ''x''
          \<and> map r_color (p_runs p) = [Some (255, 0, 0)])"
proof -
  have g: "\<not> (''red'' \<noteq> [] \<and> startswith ''red'' ''#'' \<and> length ''red'' = 7)" by simp
  have a: "accepted ''x'' (Some 12) (Some ''Arial'')" by code_simp
  have f: "hex_digit CHR ''f'' = Some 15" by code_simp
  have z: "hex_digit CHR ''0'' = Some 0" by code_simp
  have x: "''x'' \<noteq> []" by simp
  have r: "read_back ''x'' = ''x''" by code_simp
  note t = add_paragraph_color_guard [of "''red''" "Some (scenario_document [])" "''x''" True False
      False "Some 12" "Some ''Arial''" None "scenario_document []"
      "CHR ''f''" 15 "CHR ''f''" 15 "CHR ''0''" 0 "CHR ''0''" 0 "CHR ''0''" 0 "CHR ''0''" 0]
  from t g a f z x r show ?thesis by auto
qed

text \<open>
  The colour \<^verbatim>\<open>red\<close> is not of the form \<^verbatim>\<open>#RRGGBB\<close>, and the call with it reports no
  error: the paragraph is added without a colour.
\<close>

theorem add_paragraph_color_counterexample:
  "\<not> isl (fst (add_paragraph (Some (scenario_document [])) ''x'' False False False None None
                (Some ''red'') None))"
  using add_paragraph_red_values by simp

subsection \<open>\<^verbatim>\<open>find_and_replace\<close>\<close>

text \<open>
  C7. \<^verbatim>\<open>find_and_replace\<close> goes through \<^verbatim>\<open>row.cells\<close>, in which a merged cell is once
  for each grid position it covers, so the paragraphs of such a cell are rewritten and
  counted again. With "a" in a cell merged over the two columns of its row, replacing "a"
  by "aa" leaves "aaaa" in the cell and returns the count 3. Replacing every occurrence of
  "a" gives "aa", for which the count of the specification is 1; and the text that is left,
  "aaaa", holds "aa" twice.
\<close>

theorem find_and_replace_merged_cell_count:
  "find_and_replace (Some (rows_document ''b'' [[text_cell 2 None ''a'']])) ''a'' ''aa''
     = (Inr (Replaced ''a'' ''aa'' 3), Some (rows_document ''b'' [[text_cell 2 None ''aaaa'']]))
   \<and> doc_texts (rows_document ''b'' [[text_cell 2 None ''a'']]) = [''b'', ''a'']
   \<and> map (py_replace ''a'' ''aa'') [''b'', ''a''] = [''b'', ''aa'']
   \<and> recount ''a'' ''aa'' [''b'', ''a''] = 1
   \<and> py_count ''aa'' ''aaaa'' = 2"
  by code_simp

subsection \<open>\<^verbatim>\<open>edit_section_by_keyword\<close>\<close>

text \<open>
  What holds of the resolution of the range: without a paragraph that contains the keyword
  the tool returns the keyword-not-found message and the document is unchanged; otherwise
  the range runs from \<open>max 0 (i - section_range)\<close> to
  \<open>min (number of paragraphs) (i + section_range + 1)\<close> for the first such paragraph \<open>i\<close>,
  and the deletion loop removes the paragraphs of a range, and only them.
\<close>

lemma keyword_indices_Nil:
  "keyword_indices keyword i ps = [] \<longleftrightarrow> (\<forall>p \<in> set ps. \<not> py_in keyword (para_text p))"
  by (induction ps arbitrary: i) auto

lemma keyword_indices_first:
  "keyword_indices keyword i ps = k # ks \<Longrightarrow>
   i \<le> k \<and> k < i + length ps \<and> py_in keyword (para_text (ps ! (k - i)))
   \<and> (\<forall>j < k - i. \<not> py_in keyword (para_text (ps ! j)))"
proof (induction ps arbitrary: i)
  case Nil
  then show ?case by simp
next
  case (Cons p ps)
  show ?case
  proof (cases "py_in keyword (para_text p)")
    case True
    with Cons.prems show ?thesis by simp
  next
    case False
    with Cons.prems have "keyword_indices keyword (Suc i) ps = k # ks" by simp
    from Cons.IH [OF this] have ih: "Suc i \<le> k" "k < Suc i + length ps"
      "py_in keyword (para_text (ps ! (k - Suc i)))"
      "\<forall>j < k - Suc i. \<not> py_in keyword (para_text (ps ! j))" by simp_all
    from ih(1) have ki: "k - i = Suc (k - Suc i)" by simp
    have "\<forall>j < k - i. \<not> py_in keyword (para_text ((p # ps) ! j))"
    proof (intro allI impI)
      fix j assume "j < k - i"
      then show "\<not> py_in keyword (para_text ((p # ps) ! j))"
        using False ih(4) ki by (cases j) auto
    qed
    with ih ki show ?thesis by simp
  qed
qed

lemma edit_section_by_keyword_not_found:
  "\<forall>p \<in> set (paragraphs doc). \<not> py_in keyword (para_text p) \<Longrightarrow>
   edit_section_by_keyword (Some doc) keyword new_content section_range
     = (Inl (KeywordNotFound keyword), Some doc)"
  using keyword_indices_Nil [of keyword 0 "paragraphs doc"]
  by (simp add: edit_section_by_keyword_def)

lemma edit_section_by_keyword_range:
  "keyword_indices keyword 0 (paragraphs doc) = k # ks \<Longrightarrow>
   edit_section_by_keyword (Some doc) keyword new_content section_range
     = replace_blocks doc (ReplacedAround keyword)
         (max 0 (int k - section_range))
         (min (int (length (paragraphs doc))) (int k + section_range + 1)) new_content"
  by (simp add: edit_section_by_keyword_def Let_def)

lemma block_paragraphs_remove_paragraph:
  "block_paragraphs (remove_paragraph i bs)
     = take i (block_paragraphs bs) @ drop (Suc i) (block_paragraphs bs)"
proof (induction bs arbitrary: i)
  case Nil
  then show ?case by simp
next
  case (Cons x bs)
  then show ?case by (cases x; cases i) simp_all
qed

lemma block_tables_remove_paragraph:
  "block_tables (remove_paragraph i bs) = block_tables bs"
proof (induction bs arbitrary: i)
  case Nil
  then show ?case by simp
next
  case (Cons x bs)
  then show ?case by (cases x; cases i) simp_all
qed

lemma delete_range_exact:
  "a \<le> b \<Longrightarrow> b \<le> length (block_paragraphs bs) \<Longrightarrow>
   fst (delete_range (rev [int a .. int b - 1]) bs) = None
   \<and> block_paragraphs (snd (delete_range (rev [int a .. int b - 1]) bs))
       = take a (block_paragraphs bs) @ drop b (block_paragraphs bs)
   \<and> block_tables (snd (delete_range (rev [int a .. int b - 1]) bs)) = block_tables bs"
proof (induction "b - a" arbitrary: b bs)
  case 0
  then show ?case by simp
next
  case (Suc n)
  then obtain b' where b: "b = Suc b'" "a \<le> b'" "n = b' - a" by (cases b) auto
  let ?ps = "block_paragraphs bs"
  let ?bs1 = "remove_paragraph b' bs"
  have up: "[int a .. int b - 1] = [int a .. int b' - 1] @ [int b']"
    using b by (simp add: upto_rec2)
  from Suc.prems b have lt: "b' < length ?ps" by simp
  then have idx: "py_index ?ps (int b') = Inr b'" by (simp add: py_index_def)
  have step: "delete_range (rev [int a .. int b - 1]) bs = delete_range (rev [int a .. int b' - 1]) ?bs1"
    by (simp add: up idx)
  have ps1: "block_paragraphs ?bs1 = take b' ?ps @ drop (Suc b') ?ps"
    by (rule block_paragraphs_remove_paragraph)
  with lt have len: "b' \<le> length (block_paragraphs ?bs1)" by simp
  from Suc.hyps(1) [OF b(3) b(2) len] have ih:
    "fst (delete_range (rev [int a .. int b' - 1]) ?bs1) = None"
    "block_paragraphs (snd (delete_range (rev [int a .. int b' - 1]) ?bs1))
       = take a (block_paragraphs ?bs1) @ drop b' (block_paragraphs ?bs1)"
    "block_tables (snd (delete_range (rev [int a .. int b' - 1]) ?bs1)) = block_tables ?bs1"
    by simp_all
  from b(2) lt have "take a (block_paragraphs ?bs1) @ drop b' (block_paragraphs ?bs1)
      = take a ?ps @ drop b ?ps"
    by (simp add: ps1 b(1) min_def)
  with ih show ?case by (simp add: step block_tables_remove_paragraph)
qed

text \<open>
  A round of the insertion loop adds one paragraph, moves it, and removes the last one. So
  when the loop ends without an exception it has not changed the number of paragraphs, and a
  call that reports success on a range of \<open>b - a\<close> paragraphs leaves \<open>b - a\<close> paragraphs less
  than there were, however many lines the new content has.
\<close>

lemma block_paragraphs_append:
  "block_paragraphs (bs @ cs) = block_paragraphs bs @ block_paragraphs cs"
proof (induction bs)
  case Nil
  show ?case by simp
next
  case (Cons b bs)
  then show ?case by (cases b) simp_all
qed

lemma count_append:
  "length (block_paragraphs (bs @ cs)) = length (block_paragraphs bs) + length (block_paragraphs cs)"
  by (simp add: block_paragraphs_append)

lemma count_Cons:
  "length (block_paragraphs (b # bs)) = length (block_paragraphs [b]) + length (block_paragraphs bs)"
  using count_append [of "[b]" bs] by simp

lemma count_take_drop:
  "length (block_paragraphs (take i bs)) + length (block_paragraphs (drop i bs))
     = length (block_paragraphs bs)"
  using count_append [of "take i bs" "drop i bs"] by simp

lemma count_insert_at:
  "length (block_paragraphs (take i bs @ e # drop i bs))
     = length (block_paragraphs bs) + length (block_paragraphs [e])"
proof -
  have "length (block_paragraphs (take i bs @ e # drop i bs))
      = length (block_paragraphs (take i bs))
        + (length (block_paragraphs [e]) + length (block_paragraphs (drop i bs)))"
    by (simp only: count_append count_Cons [of e "drop i bs"])
  with count_take_drop [of i bs] show ?thesis by arith
qed

lemma length_block_paragraphs_add_p:
  "length (block_paragraphs (add_p p bs)) = Suc (length (block_paragraphs bs))"
  unfolding add_p_def using count_insert_at [of "sectPr_index bs" bs "P p"] by simp

lemma length_block_paragraphs_lxml_insert:
  assumes "j < length xs"
  shows "length (block_paragraphs (lxml_insert i j xs)) = length (block_paragraphs xs)"
proof -
  define others where "others = take j xs @ drop (Suc j) xs"
  define e where "e = xs ! j"
  from assms have "xs = take j xs @ e # drop (Suc j) xs"
    unfolding e_def by (rule id_take_nth_drop)
  then have "length (block_paragraphs xs)
      = length (block_paragraphs (take j xs @ e # drop (Suc j) xs))" by simp
  also have "\<dots> = length (block_paragraphs (take j xs))
        + (length (block_paragraphs [e]) + length (block_paragraphs (drop (Suc j) xs)))"
    by (simp only: count_append count_Cons [of e "drop (Suc j) xs"])
  finally have w: "length (block_paragraphs others) + length (block_paragraphs [e])
        = length (block_paragraphs xs)"
    unfolding others_def count_append by arith
  have a: "length (block_paragraphs (others @ [e])) = length (block_paragraphs xs)"
    using w by (simp only: count_append)
  have b: "\<And>k. length (block_paragraphs (take k others @ e # drop k others))
             = length (block_paragraphs xs)"
    using w by (simp only: count_insert_at)
  have "lxml_insert i j xs =
     (if i \<ge> length xs then others @ [e]
      else if i = j then xs
      else if i < j then take i others @ e # drop i others
      else take (i - 1) others @ e # drop (i - 1) others)"
    unfolding lxml_insert_def Let_def others_def e_def by (rule refl)
  then show ?thesis
    using a b by (cases "i \<ge> length xs"; cases "i = j"; cases "i < j") simp_all
qed

lemma sectPr_index_le: "sectPr_index bs \<le> length bs"
  by (simp add: sectPr_index_def length_takeWhile_le)

lemma insert_content_keeps_count:
  "fst (insert_content dflt insert_position contents bs) = None \<Longrightarrow>
   length (block_paragraphs (snd (insert_content dflt insert_position contents bs)))
     = length (block_paragraphs bs)"
proof (induction contents arbitrary: bs)
  case Nil
  show ?case by simp
next
  case (Cons c contents)
  obtain content style_info where c: "c = (content, style_info)" by (cases c)
  obtain exn p where b: "build_paragraph dflt style_info content = (exn, p)"
    by (cases "build_paragraph dflt style_info content")
  from Cons.prems c b have exn: "exn = None" by (cases exn) simp_all
  let ?bs1 = "add_p p bs"
  let ?bs2 = "lxml_insert insert_position (sectPr_index bs) ?bs1"
  have l1: "length (block_paragraphs ?bs1) = Suc (length (block_paragraphs bs))"
    by (rule length_block_paragraphs_add_p)
  have "sectPr_index bs < length ?bs1"
    using sectPr_index_le [of bs] by (simp add: add_p_def)
  then have l2: "length (block_paragraphs ?bs2) = Suc (length (block_paragraphs bs))"
    using l1 by (simp add: length_block_paragraphs_lxml_insert)
  then have idx: "py_index (block_paragraphs ?bs2) (- 1) = Inr (length (block_paragraphs bs))"
    by (simp add: py_index_def)
  let ?bs3 = "remove_paragraph (length (block_paragraphs bs)) ?bs2"
  have l3: "length (block_paragraphs ?bs3) = length (block_paragraphs bs)"
    using l2 by (simp add: block_paragraphs_remove_paragraph)
  have step: "insert_content dflt insert_position (c # contents) bs
              = insert_content dflt insert_position contents ?bs3"
    by (simp add: c b exn idx Let_def)
  from Cons.prems have "fst (insert_content dflt insert_position contents ?bs3) = None"
    by (simp add: step)
  from Cons.IH [OF this] l3 show ?case by (simp add: step)
qed

lemma replace_blocks_paragraph_count:
  assumes "a \<le> b" and "b \<le> length (paragraphs doc)"
    and "fst (replace_blocks doc done (int a) (int b) new_content) = Inr done"
  shows "map_option (length \<circ> paragraphs) (snd (replace_blocks doc done (int a) (int b) new_content))
           = Some (length (paragraphs doc) - (b - a))"
proof -
  let ?d = "delete_range (rev [int a .. int b - 1]) (body doc)"
  let ?c = "capture_styles (paragraphs doc)
              [int a .. min (int b) (int a + int (length new_content)) - 1] []"
  from assms(1,2) have b: "b \<le> length (block_paragraphs (body doc))" by (simp add: paragraphs_def)
  from delete_range_exact [OF assms(1) b] have d:
    "fst ?d = None"
    "block_paragraphs (snd ?d) = take a (block_paragraphs (body doc)) @ drop b (block_paragraphs (body doc))"
    by simp_all
  from assms(1,2) have "length (take a (paragraphs doc) @ drop b (paragraphs doc))
      = a + (length (paragraphs doc) - b)" by simp
  with assms(1,2) have "length (take a (paragraphs doc) @ drop b (paragraphs doc))
      = length (paragraphs doc) - (b - a)" by arith
  with d(2) have len: "length (block_paragraphs (snd ?d)) = length (paragraphs doc) - (b - a)"
    by (simp only: paragraphs_def)
  obtain bs where dd: "?d = (None, bs)" using d(1) by (cases ?d) simp
  with len have lbs: "length (block_paragraphs bs) = length (paragraphs doc) - (b - a)" by simp
  from assms(3) obtain captured where cc: "?c = Inr captured"
    by (cases ?c) (simp_all add: replace_blocks_def)
  let ?i = "insert_content (default_style doc) (nat (int a))
              (rev (zip new_content (pad_styles (length new_content) captured))) bs"
  obtain exn bs' where ii: "?i = (exn, bs')" by (cases ?i)
  from assms(3) cc dd ii have exn: "exn = None"
    by (cases exn) (simp_all add: replace_blocks_def Let_def)
  from insert_content_keeps_count [of "default_style doc" "nat (int a)"
      "rev (zip new_content (pad_styles (length new_content) captured))" bs] ii exn lbs
  have "length (block_paragraphs bs') = length (paragraphs doc) - (b - a)" by simp
  then show ?thesis
    using cc dd ii exn by (simp add: replace_blocks_def Let_def paragraphs_def)
qed

text \<open>
  C8. On the document of the scenario, \<^verbatim>\<open>edit_section_by_keyword("Title A", ["X"], 0)\<close>
  resolves the range of the one paragraph "Title A" and reports success, but it does not
  replace exactly that range: the paragraphs left are "X", "Hello", "Title B", and "World",
  which is outside the range, is gone. The insertion loop is the one of
  \<^verbatim>\<open>replace_section\<close>.
\<close>

theorem edit_section_by_keyword_loses_tail:
  "fst (edit_section_by_keyword (Some (scenario_document [SectPr])) ''Title A'' [''X''] 0)
     = Inr (ReplacedAround ''Title A'')
   \<and> map_option (map para_text \<circ> paragraphs)
       (snd (edit_section_by_keyword (Some (scenario_document [SectPr])) ''Title A'' [''X''] 0))
     = Some [''X'', ''Hello'', ''Title B'']"
  by code_simp

subsection \<open>The end of a section\<close>

lemma ends_section_iff:
  "ends_section title_style p \<longleftrightarrow>
     startswith (style_name (p_style p)) ''Heading'' \<and> style_name (p_style p) \<le> style_name title_style"
  by (auto simp: ends_section_def)

lemma scan_end_spec:
  "n = i + length ps \<Longrightarrow>
   i \<le> scan_end ts n i ps \<and> scan_end ts n i ps \<le> n
   \<and> (\<forall>j < scan_end ts n i ps - i. \<not> ends_section ts (ps ! j))
   \<and> (scan_end ts n i ps < n \<longrightarrow> ends_section ts (ps ! (scan_end ts n i ps - i)))"
proof (induction ps arbitrary: i)
  case Nil
  then show ?case by simp
next
  case (Cons p ps)
  show ?case
  proof (cases "ends_section ts p")
    case True
    with Cons.prems show ?thesis by simp
  next
    case False
    let ?e = "scan_end ts n (Suc i) ps"
    from Cons.prems have "n = Suc i + length ps" by simp
    from Cons.IH [OF this] have ih:
      "Suc i \<le> ?e" "?e \<le> n" "\<forall>j < ?e - Suc i. \<not> ends_section ts (ps ! j)"
      "?e < n \<longrightarrow> ends_section ts (ps ! (?e - Suc i))" by simp_all
    have e: "scan_end ts n i (p # ps) = ?e" using False by simp
    have a: "\<forall>j < ?e - i. \<not> ends_section ts ((p # ps) ! j)"
    proof (intro allI impI)
      fix j assume "j < ?e - i"
      then show "\<not> ends_section ts ((p # ps) ! j)"
        using False ih(3) by (cases j) auto
    qed
    have b: "?e < n \<longrightarrow> ends_section ts ((p # ps) ! (?e - i))"
    proof
      assume "?e < n"
      with ih(4) have "ends_section ts (ps ! (?e - Suc i))" by simp
      moreover from ih(1) have "?e - i = Suc (?e - Suc i)" by simp
      ultimately show "ends_section ts ((p # ps) ! (?e - i))" by simp
    qed
    from ih(1,2) a b show ?thesis unfolding e by simp
  qed
qed

lemma replace_section_range:
  "find_title section_title 0 (paragraphs doc) = int title_index \<Longrightarrow>
   replace_section (Some doc) section_title new_content preserve_title
     = replace_blocks doc (ReplacedSection section_title)
         (int title_index + (if preserve_title then 1 else 0))
         (int (section_end (paragraphs doc) title_index)) new_content"
  by (simp add: replace_section_def Let_def)

text \<open>
  C9. For the title at \<open>title_index\<close>, the end of the range of \<^verbatim>\<open>replace_section\<close> is the
  index of the first paragraph after the title whose style name begins with "Heading" and
  is lexicographically at most the style name of the title's paragraph; without such a
  paragraph it is the number of paragraphs, the end of the document.
\<close>

theorem section_end_first_heading:
  assumes "title_index < length ps"
  shows "title_index < section_end ps title_index \<and> section_end ps title_index \<le> length ps
    \<and> (\<forall>j. title_index < j \<and> j < section_end ps title_index \<longrightarrow>
          \<not> (startswith (style_name (p_style (ps ! j))) ''Heading''
             \<and> style_name (p_style (ps ! j)) \<le> style_name (p_style (ps ! title_index))))
    \<and> (section_end ps title_index < length ps \<longrightarrow>
          startswith (style_name (p_style (ps ! section_end ps title_index))) ''Heading''
          \<and> style_name (p_style (ps ! section_end ps title_index))
               \<le> style_name (p_style (ps ! title_index)))"
proof -
  let ?ts = "p_style (ps ! title_index)"
  let ?rest = "drop (Suc title_index) ps"
  let ?e = "section_end ps title_index"
  have e: "?e = scan_end ?ts (length ps) (Suc title_index) ?rest"
    by (simp add: section_end_def)
  from assms have n: "length ps = Suc title_index + length ?rest" by simp
  note spec = scan_end_spec [OF n, of ?ts, folded e]
  from spec have s1: "Suc title_index \<le> ?e" by blast
  from spec have s2: "?e \<le> length ps" by blast
  from spec have s3: "\<forall>j < ?e - Suc title_index. \<not> ends_section ?ts (?rest ! j)" by blast
  from spec have s4: "?e < length ps \<longrightarrow> ends_section ?ts (?rest ! (?e - Suc title_index))" by blast
  have a: "\<forall>j. title_index < j \<and> j < ?e \<longrightarrow> \<not> ends_section ?ts (ps ! j)"
  proof (intro allI impI)
    fix j assume j: "title_index < j \<and> j < ?e"
    then have "j - Suc title_index < ?e - Suc title_index" by arith
    with s3 have "\<not> ends_section ?ts (?rest ! (j - Suc title_index))" by simp
    moreover from j s2 have "?rest ! (j - Suc title_index) = ps ! j" by simp
    ultimately show "\<not> ends_section ?ts (ps ! j)" by simp
  qed
  have b: "?e < length ps \<longrightarrow> ends_section ?ts (ps ! ?e)"
  proof
    assume l: "?e < length ps"
    with s4 have "ends_section ?ts (?rest ! (?e - Suc title_index))" by simp
    moreover from l s1 have "?rest ! (?e - Suc title_index) = ps ! ?e" by simp
    ultimately show "ends_section ?ts (ps ! ?e)" by simp
  qed
  from s1 s2 a b show ?thesis by (simp add: ends_section_iff)
qed

theorem section_end_first_heading_witness:
  "(0::nat) < length (paragraphs (scenario_document []))
   \<and> section_end (paragraphs (scenario_document [])) 0 = 2
   \<and> 0 < section_end (paragraphs (scenario_document [])) 0
   \<and> section_end (paragraphs (scenario_document [])) 0 \<le> length (paragraphs (scenario_document []))"
proof -
  have l: "(0::nat) < length (paragraphs (scenario_document []))" by code_simp
  have v: "section_end (paragraphs (scenario_document [])) 0 = 2" by code_simp
  from section_end_first_heading [OF l] l v show ?thesis by simp
qed

subsection \<open>\<^verbatim>\<open>search_text\<close>\<close>

text \<open>
  C10. \<^verbatim>\<open>search_text\<close> is read-only: whatever the state and the keyword, and whether
  or not anything matches, the document after the call is the document before it, in
  every paragraph (text, style, formatting) and every table.
\<close>

theorem search_text_read_only: "snd (search_text st keyword) = st"
  by (simp add: search_text_def Let_def split: option.splits sum.splits)

end
